theory Spec2Isabelle
  imports Main "HOL-Library.Sublist"
begin

section \<open>Strings\<close>

text \<open>
  A Go string is a sequence of bytes: \<open>string\<close> (a list of \<open>char\<close>). The functions of
  package \<open>strings\<close> that the program calls work on bytes.
\<close>

text \<open>\<open>strings.HasPrefix(s, prefix)\<close>.\<close>

definition HasPrefix :: "string \<Rightarrow> string \<Rightarrow> bool" where
  "HasPrefix s p = prefix p s"

text \<open>\<open>strings.Contains(s, substr)\<close>: \<open>substr\<close> occurs at some position of \<open>s\<close>.\<close>

fun Contains :: "string \<Rightarrow> string \<Rightarrow> bool" where
  "Contains [] substr = (substr = [])"
| "Contains (c # s) substr = (prefix substr (c # s) \<or> Contains s substr)"

text \<open>The character class \<open>[0-9]\<close>.\<close>

definition isDigit :: "char \<Rightarrow> bool" where
  "isDigit c = (c \<in> set ''0123456789'')"

section \<open>Configuration (package-level variables of part_000)\<close>

definition jiraProjects :: "string list" where
  "jiraProjects = [''IR'']"

section \<open>The two regular expressions of main\<close>

text \<open>
  \<open>main\<close> builds \<open>keyPattern\<close> as \<open>(?:P1|P2|...)-[0-9]+\<close> from the list of projects, each
  quoted by \<open>regexp.QuoteMeta\<close> (so it matches literally), and compiles
  \<open>(keyPattern): \<close>. The pattern has no anchor. Go's \<open>regexp\<close> returns the leftmost
  match and, among the matches that start there, the one a backtracking engine finds
  first: the alternatives are tried in the order of the list, and \<open>[0-9]+\<close> is greedy.
  After the longest run of digits, a shorter run can never be followed by \<open>:\<close> (the
  next byte is a digit), so only the longest run is tried.

  An empty list of projects gives the pattern \<open>(?:)-[0-9]+\<close>, whose group matches the
  empty string.
\<close>

definition keyAlternatives :: "string list \<Rightarrow> string list" where
  "keyAlternatives projects = (if projects = [] then [[]] else projects)"

text \<open>One alternative at the start of \<open>s\<close>: the submatch (the key) when
  \<open>s\<close> starts with \<open>projectKey-digits: \<close>.\<close>

definition matchProjectKey :: "string \<Rightarrow> string \<Rightarrow> string option" where
  "matchProjectKey projectKey s =
     (if prefix (projectKey @ ''-'') s then
        (let r = drop (length projectKey + 1) s;
             ds = takeWhile isDigit r
         in if ds \<noteq> [] \<and> prefix '': '' (dropWhile isDigit r)
            then Some (projectKey @ ''-'' @ ds) else None)
      else None)"

text \<open>The alternatives in order, at the start of \<open>s\<close>.\<close>

fun matchKeyHere :: "string list \<Rightarrow> string \<Rightarrow> string option" where
  "matchKeyHere [] s = None"
| "matchKeyHere (p # ps) s =
     (case matchProjectKey p s of Some k \<Rightarrow> Some k | None \<Rightarrow> matchKeyHere ps s)"

text \<open>
  \<open>FindStringSubmatch(s)\<close> of the expression compiled from \<open>projects\<close>: the first
  position of \<open>s\<close> where it matches. \<open>None\<close> is Go's \<open>nil\<close>, and \<open>Some (m0, m1)\<close>
  is the slice of the whole match \<open>m0\<close> and of the submatch \<open>m1\<close> (the key,
  \<open>match[1]\<close>).
\<close>

fun FindStringSubmatch :: "string list \<Rightarrow> string \<Rightarrow> (string \<times> string) option" where
  "FindStringSubmatch projects [] =
     (case matchKeyHere (keyAlternatives projects) [] of
        Some k \<Rightarrow> Some (k @ '': '', k) | None \<Rightarrow> None)"
| "FindStringSubmatch projects (c # s) =
     (case matchKeyHere (keyAlternatives projects) (c # s) of
        Some k \<Rightarrow> Some (k @ '': '', k)
      | None \<Rightarrow> FindStringSubmatch projects s)"

text \<open>\<open>keyRegexp.FindStringSubmatch(s)\<close>, with \<open>keyRegexp\<close> compiled from \<open>jiraProjects\<close>.\<close>

definition keyRegexp_FindStringSubmatch :: "string \<Rightarrow> (string \<times> string) option" where
  "keyRegexp_FindStringSubmatch s = FindStringSubmatch jiraProjects s"

text \<open>\<open>bugRegexp.MatchString(s)\<close> for \<open>Bug [0-9]+: \<close>, also without an anchor.\<close>

definition matchBugHere :: "string \<Rightarrow> bool" where
  "matchBugHere s =
     (prefix ''Bug '' s \<and>
      (let r = drop 4 s
       in takeWhile isDigit r \<noteq> [] \<and> prefix '': '' (dropWhile isDigit r)))"

fun bugRegexp_MatchString :: "string \<Rightarrow> bool" where
  "bugRegexp_MatchString [] = matchBugHere []"
| "bugRegexp_MatchString (c # s) = (matchBugHere (c # s) \<or> bugRegexp_MatchString s)"

text \<open>
  Lines 83 to 86 of \<open>linkPullRequestToIssue\<close>: the title without its leading
  \<open>issueKey: \<close>, when it has one.
\<close>

definition stripIssueKey :: "string \<Rightarrow> string \<Rightarrow> string" where
  "stripIssueKey title issueKey =
     (if HasPrefix title (issueKey @ '': '') then drop (length (issueKey @ '': '')) title
      else title)"

text \<open>
  The verb \<open>%d\<close> of \<open>fmt.Sprintf\<close> on an \<open>int\<close>: the decimal digits, after a minus
  sign when the number is negative.
\<close>

fun decimal :: "nat \<Rightarrow> string" where
  "decimal n =
     (if n < 10 then [''0123456789'' ! n]
      else decimal (n div 10) @ [''0123456789'' ! (n mod 10)])"

declare decimal.simps [simp del]

definition fmt_d :: "int \<Rightarrow> string" where
  "fmt_d i = (if i < 0 then ''-'' @ decimal (nat (- i)) else decimal (nat i))"

section \<open>The data of the two remote systems\<close>

text \<open>
  A pull request as the program reads it. The program reads a \<open>github.PullRequest\<close>
  only through the accessors \<open>GetTitle\<close>, \<open>GetState\<close>, \<open>GetMerged\<close>, \<open>GetNumber\<close>,
  \<open>User.GetLogin\<close>, \<open>Base.Repo.GetFullName\<close> and \<open>Labels\<close> (each label through
  \<open>GetName\<close>); the record holds what they return (the empty string, \<open>False\<close> or 0 for
  a field that is not set). \<open>pr.Base\<close> itself is taken to be set, as it is in every
  pull request that GitHub lists.
\<close>

record Label =
  Name :: string

record PullRequest =
  Title :: string
  State :: string
  Merged :: bool
  Number :: int
  User_Login :: string
  Base_Repo_FullName :: string
  Labels :: "Label list"

text \<open>
  \<open>jira.RemoteLink\<close> with its object and icon, and the one field of \<open>jira.Issue\<close> that the
  program reads, \<open>issue.Fields.Status.Name\<close>. The object of a link and the fields and
  status of an issue are taken to be set, as they are in Jira's answers. The icon of a
  fetched link is never read and may be missing.
\<close>

record RemoteLinkIcon =
  Url16x16 :: string
  IconTitle :: string

record RemoteLinkObject =
  URL :: string
  LinkTitle :: string
  Icon :: "RemoteLinkIcon option"

record RemoteLink =
  Object :: RemoteLinkObject

record Issue =
  Fields_Status_Name :: string

text \<open>A Go \<open>error\<close> value, with its message.\<close>

datatype error = Error string

text \<open>
  The issue tracker behind \<open>jiraClient\<close>. It answers \<open>Issue.Get\<close> with an issue or
  an error, \<open>Issue.GetRemoteLinks\<close> with the links it stores for the issue or an
  error, and the POST of a remote link with an error or by storing the link after the
  links it has for the issue. The program discards the error of \<open>jiraClient.NewRequest\<close>;
  the request is taken to be built.
\<close>

record Jira =
  issueAnswer :: "string \<Rightarrow> error + Issue"
  remoteLinksError :: "string \<Rightarrow> error option"
  remoteLinks :: "string \<Rightarrow> RemoteLink list"
  postError :: "string \<Rightarrow> RemoteLink \<Rightarrow> error option"

definition Issue_Get :: "Jira \<Rightarrow> string \<Rightarrow> error + Issue" where
  "Issue_Get jiraClient issueKey = issueAnswer jiraClient issueKey"

definition Issue_GetRemoteLinks :: "Jira \<Rightarrow> string \<Rightarrow> error + RemoteLink list" where
  "Issue_GetRemoteLinks jiraClient issueKey =
     (case remoteLinksError jiraClient issueKey of
        Some err \<Rightarrow> Inl err
      | None \<Rightarrow> Inr (remoteLinks jiraClient issueKey))"

definition Do_POST_remotelink :: "Jira \<Rightarrow> string \<Rightarrow> RemoteLink \<Rightarrow> error option \<times> Jira" where
  "Do_POST_remotelink jiraClient issueKey link =
     (case postError jiraClient issueKey link of
        Some err \<Rightarrow> (Some err, jiraClient)
      | None \<Rightarrow>
          (None, jiraClient\<lparr>remoteLinks :=
             (remoteLinks jiraClient)(issueKey := remoteLinks jiraClient issueKey @ [link])\<rparr>))"

text \<open>
  \<open>githubClient.PullRequests.List(ctx, owner, name, opts)\<close> with the options of \<open>main\<close>
  (the first page of at most 100 pull requests, most recently updated first).
\<close>

type_synonym GitHub = "string \<Rightarrow> string \<Rightarrow> error + PullRequest list"

section \<open>What a run does: its trace\<close>

text \<open>
  A run is observed through the calls it makes, in order: the calls to \<open>klog\<close> and the
  requests to the two remote systems. A log call is recorded with its level
  (\<open>klog.V(n).Infof\<close> or \<open>klog.Warningf\<close>) and with the call site and its arguments;
  whether \<open>klog\<close> prints it depends on the verbosity flag of the process.

  \<^item> \<open>Checking t k\<close>: "Checking if t is linked to k..."
  \<^item> \<open>NotOnHold u\<close>: "The pull request u is open and it's not on hold. Please make sure
    that it has got all approvals or put it on hold."
  \<^item> \<open>GotWant k s w\<close>: "k: got s, want w"
  \<^item> \<open>UnexpectedState u s\<close>: "u: unexpected state s"
  \<^item> \<open>AlreadyLinked t k\<close>: "t is already linked to k"
  \<^item> \<open>Linking t k\<close>: "Linking the pull request t to the issue k..."
  \<^item> \<open>Analyzing o n\<close>: "Analyzing github repository o/n..."
  \<^item> \<open>NotAssigned u t\<close>: "The pull request u is not assigned to a bug nor a story: t"
  \<^item> \<open>AwaitingBugfix u t\<close>: "Awaiting review (bugfix): u: t"
  \<^item> \<open>AwaitingFeature u t\<close>: "Awaiting review (feature): u: t"
\<close>

datatype level = V nat | Warning

datatype message =
    Checking string string
  | NotOnHold string
  | GotWant string string string
  | UnexpectedState string string
  | AlreadyLinked string string
  | Linking string string
  | Analyzing string string
  | NotAssigned string string
  | AwaitingBugfix string string
  | AwaitingFeature string string

datatype request =
    PullRequestsList string string
  | IssueGet string
  | GetRemoteLinks string
  | Post string RemoteLink

text \<open>A remote request is recorded with the error it returned, if any.\<close>

datatype event = Log level message | Remote request "error option"

text \<open>\<open>klog.Fatal(err)\<close> logs the error and exits the process: the run ends there.\<close>

datatype outcome = Returned | Fatal error

section \<open>The program (part_000)\<close>

record OwnerName =
  Owner :: string
  RepoName :: string

definition repositories :: "OwnerName list" where
  "repositories =
     [\<lparr>Owner = ''openshift'', RepoName = ''api''\<rparr>,
      \<lparr>Owner = ''openshift'', RepoName = ''cluster-image-registry-operator''\<rparr>,
      \<lparr>Owner = ''openshift'', RepoName = ''cluster-monitoring-operator''\<rparr>,
      \<lparr>Owner = ''openshift'', RepoName = ''docker-distribution''\<rparr>,
      \<lparr>Owner = ''openshift'', RepoName = ''image-registry''\<rparr>,
      \<lparr>Owner = ''openshift'', RepoName = ''oc''\<rparr>,
      \<lparr>Owner = ''openshift'', RepoName = ''openshift-apiserver''\<rparr>,
      \<lparr>Owner = ''openshift'', RepoName = ''origin''\<rparr>,
      \<lparr>Owner = ''openshift'', RepoName = ''release''\<rparr>]"

text \<open>
  The two \<open>map[string]bool\<close>; reading a key that a Go map does not hold gives
  \<open>false\<close>.
\<close>

definition team :: "string \<rightharpoonup> bool" where
  "team = [''dmage'' \<mapsto> True, ''ricardomaraschini'' \<mapsto> True]"

definition teamRepos :: "string \<rightharpoonup> bool" where
  "teamRepos =
     [''openshift/cluster-image-registry-operator'' \<mapsto> True,
      ''openshift/image-registry'' \<mapsto> True]"

definition index :: "(string \<rightharpoonup> bool) \<Rightarrow> string \<Rightarrow> bool" where
  "index m k = (case m k of Some b \<Rightarrow> b | None \<Rightarrow> False)"

definition pullRequestLink :: "PullRequest \<Rightarrow> string" where
  "pullRequestLink pr =
     ''https://github.com/'' @ Base_Repo_FullName pr @ ''/pull/'' @ fmt_d (Number pr)"

definition pullRequestLinkTitle :: "PullRequest \<Rightarrow> string" where
  "pullRequestLinkTitle pr = Base_Repo_FullName pr @ ''#'' @ fmt_d (Number pr)"

definition pullRequestLabels :: "PullRequest \<Rightarrow> string list" where
  "pullRequestLabels pr = map Name (Labels pr)"

fun contains :: "string list \<Rightarrow> string \<Rightarrow> bool" where
  "contains [] name = False"
| "contains (label # labels) name = (if label = name then True else contains labels name)"

text \<open>
  Lines 93 to 117 of \<open>linkPullRequestToIssue\<close>, the switch on the state of the pull
  request: the log calls it makes, given the title (already stripped) and the status
  of the issue.
\<close>

definition checkStatus :: "PullRequest \<Rightarrow> string \<Rightarrow> string \<Rightarrow> string \<Rightarrow> event list" where
  "checkStatus pr issueKey title status =
     (if State pr = ''open'' then
        (if \<not> contains (pullRequestLabels pr) ''do-not-merge/hold''
         then [Log (V 1) (NotOnHold (pullRequestLink pr))] else []) @
        (if Contains title ''WIP'' then
           (if status \<noteq> ''In Progress''
            then [Log (V 1) (GotWant issueKey status ''In Progress'')] else [])
         else
           (if status \<noteq> ''Code Review''
            then [Log (V 1) (GotWant issueKey status ''Code Review'')] else []))
      else if State pr = ''closed'' then
        (if Merged pr \<and> status \<noteq> ''On QA'' \<and> status \<noteq> ''Done''
         then [Log (V 1) (GotWant issueKey status ''On QA or Done'')] else [])
      else [Log Warning (UnexpectedState (pullRequestLink pr) (State pr))])"

text \<open>
  Lines 127 to 132: the loop over the fetched links returns from the function at the
  first link whose URL is \<open>remoteURL\<close>.
\<close>

fun linked :: "RemoteLink list \<Rightarrow> string \<Rightarrow> bool" where
  "linked [] remoteURL = False"
| "linked (link # links) remoteURL =
     (if URL (Object link) = remoteURL then True else linked links remoteURL)"

text \<open>
  \<open>linkPullRequestToIssue\<close>: the trace of the call, the issue tracker after it, and
  whether it returned.
\<close>

definition linkPullRequestToIssue ::
  "Jira \<Rightarrow> PullRequest \<Rightarrow> string \<Rightarrow> event list \<times> Jira \<times> outcome" where
  "linkPullRequestToIssue jiraClient pr issueKey =
     (let checking = [Log (V 3) (Checking (pullRequestLinkTitle pr) issueKey)];
          title = stripIssueKey (Title pr) issueKey
      in case Issue_Get jiraClient issueKey of
           Inl err \<Rightarrow>
             (checking @ [Remote (IssueGet issueKey) (Some err)], jiraClient, Fatal err)
         | Inr issue \<Rightarrow>
             (let status = Fields_Status_Name issue;
                  checked = checking @ [Remote (IssueGet issueKey) None] @
                            checkStatus pr issueKey title status
              in case Issue_GetRemoteLinks jiraClient issueKey of
                   Inl err \<Rightarrow>
                     (checked @ [Remote (GetRemoteLinks issueKey) (Some err)],
                      jiraClient, Fatal err)
                 | Inr links \<Rightarrow>
                     (let fetched = checked @ [Remote (GetRemoteLinks issueKey) None];
                          remoteURL = pullRequestLink pr;
                          remoteTitle = pullRequestLinkTitle pr @ '': '' @ title
                      in if linked links remoteURL then
                           (fetched @
                              [Log (V 3) (AlreadyLinked (pullRequestLinkTitle pr) issueKey)],
                            jiraClient, Returned)
                         else
                           (let linking = fetched @
                                  [Log (V 1) (Linking (pullRequestLinkTitle pr) issueKey)];
                                link = \<lparr>Object = \<lparr>URL = remoteURL, LinkTitle = remoteTitle,
                                         Icon = Some \<lparr>Url16x16 = ''https://github.com/favicon.ico'',
                                                      IconTitle = ''GitHub''\<rparr>\<rparr>\<rparr>;
                                path = ''rest/api/2/issue/'' @ issueKey @ ''/remotelink''
                            in case Do_POST_remotelink jiraClient issueKey link of
                                 (Some err, jiraClient') \<Rightarrow>
                                   (linking @ [Remote (Post path link) (Some err)],
                                    jiraClient', Fatal err)
                               | (None, jiraClient') \<Rightarrow>
                                   (linking @ [Remote (Post path link) None],
                                    jiraClient', Returned)))))"

text \<open>
  Lines 212 to 224 of \<open>main\<close>: the log call, if any, for a pull request and the match
  of its title.
\<close>

definition awaiting :: "PullRequest \<Rightarrow> (string \<times> string) option \<Rightarrow> event list" where
  "awaiting pr match =
     (if State pr = ''open'' \<and>
         (index team (User_Login pr) \<or> index teamRepos (Base_Repo_FullName pr)) then
        (if \<not> Contains (Title pr) ''WIP'' then
           (case match of
              None \<Rightarrow>
                (if \<not> bugRegexp_MatchString (Title pr)
                 then [Log (V 1) (NotAssigned (pullRequestLink pr) (Title pr))]
                 else [Log (V 1) (AwaitingBugfix (pullRequestLink pr) (Title pr))])
            | Some m \<Rightarrow> [Log (V 1) (AwaitingFeature (pullRequestLink pr) (Title pr))])
         else [])
      else [])"

text \<open>Lines 210 to 230 of \<open>main\<close>: the body of the loop over the pull requests.\<close>

definition main_pullRequest :: "Jira \<Rightarrow> PullRequest \<Rightarrow> event list \<times> Jira \<times> outcome" where
  "main_pullRequest jiraClient pr =
     (let match = keyRegexp_FindStringSubmatch (Title pr);
          logged = awaiting pr match
      in case match of
           None \<Rightarrow> (logged, jiraClient, Returned)
         | Some (m0, issueKey) \<Rightarrow>
             (case linkPullRequestToIssue jiraClient pr issueKey of
                (evs, jiraClient', out) \<Rightarrow> (logged @ evs, jiraClient', out)))"

text \<open>Lines 209 to 231: the loop over the pull requests of one repository.\<close>

fun main_pullRequests :: "Jira \<Rightarrow> PullRequest list \<Rightarrow> event list \<times> Jira \<times> outcome" where
  "main_pullRequests jiraClient [] = ([], jiraClient, Returned)"
| "main_pullRequests jiraClient (pr # prs) =
     (case main_pullRequest jiraClient pr of
        (evs, jiraClient', Fatal err) \<Rightarrow> (evs, jiraClient', Fatal err)
      | (evs, jiraClient', Returned) \<Rightarrow>
          (case main_pullRequests jiraClient' prs of
             (evs', jiraClient'', out) \<Rightarrow> (evs @ evs', jiraClient'', out)))"

text \<open>Lines 194 to 232: the loop over the repositories.\<close>

fun main_repositories ::
  "GitHub \<Rightarrow> Jira \<Rightarrow> OwnerName list \<Rightarrow> event list \<times> Jira \<times> outcome" where
  "main_repositories githubClient jiraClient [] = ([], jiraClient, Returned)"
| "main_repositories githubClient jiraClient (repo # repos) =
     (let analyzing = [Log (V 2) (Analyzing (Owner repo) (RepoName repo))];
          list = PullRequestsList (Owner repo) (RepoName repo)
      in case githubClient (Owner repo) (RepoName repo) of
           Inl err \<Rightarrow> (analyzing @ [Remote list (Some err)], jiraClient, Fatal err)
         | Inr prs \<Rightarrow>
             (case main_pullRequests jiraClient prs of
                (evs, jiraClient', Fatal err) \<Rightarrow>
                  (analyzing @ [Remote list None] @ evs, jiraClient', Fatal err)
              | (evs, jiraClient', Returned) \<Rightarrow>
                  (case main_repositories githubClient jiraClient' repos of
                     (evs', jiraClient'', out) \<Rightarrow>
                       (analyzing @ [Remote list None] @ evs @ evs', jiraClient'', out))))"

text \<open>
  \<open>main\<close> after its start-up (flags, environment, the two expressions and the two
  clients, lines 158 to 192): the traversal of \<open>repositories\<close>.
\<close>

definition main :: "GitHub \<Rightarrow> Jira \<Rightarrow> event list \<times> Jira \<times> outcome" where
  "main githubClient jiraClient = main_repositories githubClient jiraClient repositories"

section \<open>The earlier version of the link reconciler (main.go)\<close>

text \<open>
  \<open>linkPullRequestToIssue\<close> of \<open>src/main.go\<close>, lines 50 to 95. Its helpers
  \<open>pullRequestLink\<close> and \<open>pullRequestLinkTitle\<close> are the same text as in part_000.
\<close>

definition linkPullRequestToIssue_main_go ::
  "Jira \<Rightarrow> PullRequest \<Rightarrow> string \<Rightarrow> event list \<times> Jira \<times> outcome" where
  "linkPullRequestToIssue_main_go jiraClient pr issueKey =
     (let checking = [Log (V 3) (Checking (pullRequestLinkTitle pr) issueKey)];
          title = (if HasPrefix (Title pr) (issueKey @ '': '')
                   then drop (length (issueKey @ '': '')) (Title pr) else Title pr)
      in case Issue_GetRemoteLinks jiraClient issueKey of
           Inl err \<Rightarrow>
             (checking @ [Remote (GetRemoteLinks issueKey) (Some err)], jiraClient, Fatal err)
         | Inr links \<Rightarrow>
             (let fetched = checking @ [Remote (GetRemoteLinks issueKey) None];
                  remoteURL = pullRequestLink pr;
                  remoteTitle = pullRequestLinkTitle pr @ '': '' @ title
              in if linked links remoteURL then
                   (fetched @ [Log (V 3) (AlreadyLinked (pullRequestLinkTitle pr) issueKey)],
                    jiraClient, Returned)
                 else
                   (let linking = fetched @
                          [Log (V 1) (Linking (pullRequestLinkTitle pr) issueKey)];
                        link = \<lparr>Object = \<lparr>URL = remoteURL, LinkTitle = remoteTitle,
                                 Icon = Some \<lparr>Url16x16 = ''https://github.com/favicon.ico'',
                                              IconTitle = ''GitHub''\<rparr>\<rparr>\<rparr>;
                        path = ''rest/api/2/issue/'' @ issueKey @ ''/remotelink''
                    in case Do_POST_remotelink jiraClient issueKey link of
                         (Some err, jiraClient') \<Rightarrow>
                           (linking @ [Remote (Post path link) (Some err)],
                            jiraClient', Fatal err)
                       | (None, jiraClient') \<Rightarrow>
                           (linking @ [Remote (Post path link) None],
                            jiraClient', Returned))))"

section \<open>Reading a trace\<close>

text \<open>The messages logged and the requests made, in order, and the error of an event: the
  one that a remote request returned, if any.\<close>

fun logged :: "event list \<Rightarrow> message list" where
  "logged [] = []"
| "logged (Log l msg # evs) = msg # logged evs"
| "logged (Remote req err # evs) = logged evs"

fun requests :: "event list \<Rightarrow> request list" where
  "requests [] = []"
| "requests (Log l msg # evs) = requests evs"
| "requests (Remote req err # evs) = req # requests evs"

fun failure :: "event \<Rightarrow> error option" where
  "failure (Log l msg) = None"
| "failure (Remote req err) = err"

text \<open>The kinds of message: a status mismatch, the reminder about the hold label, the
  three messages of the classification of open pull requests.\<close>

fun isMismatch :: "message \<Rightarrow> bool" where
  "isMismatch (GotWant k s w) = True"
| "isMismatch msg = False"

fun isHoldReminder :: "message \<Rightarrow> bool" where
  "isHoldReminder (NotOnHold u) = True"
| "isHoldReminder msg = False"

fun isAwaiting :: "message \<Rightarrow> bool" where
  "isAwaiting (NotAssigned u t) = True"
| "isAwaiting (AwaitingBugfix u t) = True"
| "isAwaiting (AwaitingFeature u t) = True"
| "isAwaiting msg = False"

fun isPost :: "request \<Rightarrow> bool" where
  "isPost (Post path link) = True"
| "isPost req = False"

text \<open>The links of the requests to create a link that were accepted.\<close>

fun created :: "event list \<Rightarrow> RemoteLink list" where
  "created [] = []"
| "created (Remote (Post path link) None # evs) = link # created evs"
| "created (ev # evs) = created evs"

text \<open>
  A trace and an outcome fit when the run returned and no request of the trace failed,
  or the run ended with \<open>klog.Fatal(err)\<close> and the last event of the trace is the only
  request that failed, with the error \<open>err\<close>.
\<close>

definition fits :: "event list \<Rightarrow> outcome \<Rightarrow> bool" where
  "fits evs out =
     (case out of
        Returned \<Rightarrow> (\<forall>ev\<in>set evs. failure ev = None)
      | Fatal err \<Rightarrow>
          evs \<noteq> [] \<and> (\<forall>ev\<in>set (butlast evs). failure ev = None) \<and>
          failure (last evs) = Some err)"

text \<open>
  The messages about a mismatch (of the status, of the hold label, of a title without
  key) are logged with \<open>klog.V(1).Infof\<close>.
\<close>

fun advisoryLevel :: "event \<Rightarrow> bool" where
  "advisoryLevel (Log l msg) =
     (isMismatch msg \<or> isHoldReminder msg \<or> isAwaiting msg \<longrightarrow> l = V 1)"
| "advisoryLevel (Remote req err) = True"

text \<open>
  What part_000 added to \<open>linkPullRequestToIssue\<close>: the request for the issue and the
  messages of the switch on the state.
\<close>

fun isStatusCheck :: "event \<Rightarrow> bool" where
  "isStatusCheck (Remote (IssueGet k) err) = True"
| "isStatusCheck (Log l (NotOnHold u)) = True"
| "isStatusCheck (Log l (GotWant k s w)) = True"
| "isStatusCheck (Log l (UnexpectedState u s)) = True"
| "isStatusCheck ev = False"

text \<open>
  The form of title that the specification describes, \<open><prefix>-<digits>: rest\<close> with
  the prefix among \<open>jiraProjects\<close>: \<open>keyedTitle key rest t\<close> says that \<open>t\<close> has this form,
  with \<open>key\<close> for \<open><prefix>-<digits>\<close>.
\<close>

definition keyedTitle :: "string \<Rightarrow> string \<Rightarrow> string \<Rightarrow> bool" where
  "keyedTitle key rest t =
     (\<exists>p ds. p \<in> set jiraProjects \<and> ds \<noteq> [] \<and> (\<forall>c\<in>set ds. isDigit c) \<and>
        key = p @ ''-'' @ ds \<and> t = key @ '': '' @ rest)"

section \<open>The examples of the specification\<close>

text \<open>
  The pull request of the specification's example: number 42 of
  \<open>openshift/image-registry\<close>, open, by a member of the team, without labels.
\<close>

definition example_pr :: "string \<Rightarrow> PullRequest" where
  "example_pr title =
     \<lparr>Title = title, State = ''open'', Merged = False, Number = 42,
      User_Login = ''dmage'', Base_Repo_FullName = ''openshift/image-registry'',
      Labels = []\<rparr>"

text \<open>An issue tracker that answers every request: each issue has the given status, and
  the given links are stored for each issue.\<close>

definition example_jira :: "string \<Rightarrow> RemoteLink list \<Rightarrow> Jira" where
  "example_jira status links =
     \<lparr>issueAnswer = (\<lambda>k. Inr \<lparr>Fields_Status_Name = status\<rparr>),
      remoteLinksError = (\<lambda>k. None),
      remoteLinks = (\<lambda>k. links),
      postError = (\<lambda>k link. None)\<rparr>"

text \<open>
  A GitHub that lists the pull request of the example for \<open>openshift/image-registry\<close>,
  fails for \<open>openshift/oc\<close>, the next repository, and lists nothing for the others.
\<close>

definition example_github :: GitHub where
  "example_github owner name =
     (if name = ''image-registry'' then Inr [example_pr ''IR-123: Fix registry pruning'']
      else if name = ''oc'' then Inl (Error ''rate limit exceeded'')
      else Inr [])"

section \<open>Facts about the strings and the two expressions\<close>

lemma contains_iff: "contains labels name \<longleftrightarrow> name \<in> set labels"
  by (induction labels) auto

lemma linked_iff: "linked links u \<longleftrightarrow> (\<exists>link\<in>set links. URL (Object link) = u)"
  by (induction links) auto

lemma Contains_iff: "Contains s sub \<longleftrightarrow> (\<exists>ps ss. s = ps @ sub @ ss)"
proof (induction s)
  case Nil
  then show ?case by auto
next
  case (Cons c s)
  have "(\<exists>ps ss. c # s = ps @ sub @ ss) \<longleftrightarrow>
        prefix sub (c # s) \<or> (\<exists>ps ss. s = ps @ sub @ ss)"
    using sublist_Cons_right[of sub c s] by (simp add: sublist_def)
  with Cons show ?case by simp
qed

text \<open>An occurrence of \<open>sub\<close> cannot start inside a part that lacks its first byte.\<close>

lemma Contains_skip:
  "hd sub \<notin> set pre \<Longrightarrow> sub \<noteq> [] \<Longrightarrow> Contains (pre @ rest) sub = Contains rest sub"
proof (induction pre)
  case Nil
  then show ?case by simp
next
  case (Cons c pre)
  then have "\<not> prefix sub (c # pre @ rest)"
    by (cases sub) auto
  with Cons show ?case by simp
qed

lemma Contains_stripIssueKey:
  assumes "CHR ''W'' \<notin> set issueKey"
  shows "Contains (stripIssueKey title issueKey) ''WIP'' = Contains title ''WIP''"
proof (cases "HasPrefix title (issueKey @ '': '')")
  case True
  then obtain rest where t: "title = (issueKey @ '': '') @ rest"
    by (auto simp: HasPrefix_def prefix_def)
  have "Contains ((issueKey @ '': '') @ rest) ''WIP'' = Contains rest ''WIP''"
    by (rule Contains_skip) (use assms in auto)
  with t show ?thesis by (simp add: stripIssueKey_def HasPrefix_def)
next
  case False
  then show ?thesis by (simp add: stripIssueKey_def)
qed

lemma isDigit_colon [simp]: "\<not> isDigit CHR '':''"
  by (simp add: isDigit_def)

lemma takeWhile_digits:
  "\<forall>c\<in>set ds. isDigit c \<Longrightarrow> takeWhile isDigit (ds @ CHR '':'' # rest) = ds"
  by (induction ds) auto

lemma dropWhile_digits:
  "\<forall>c\<in>set ds. isDigit c \<Longrightarrow> dropWhile isDigit (ds @ CHR '':'' # rest) = CHR '':'' # rest"
  by (induction ds) auto

lemma matchProjectKey_marker:
  assumes "ds \<noteq> []" "\<forall>c\<in>set ds. isDigit c"
  shows "matchProjectKey p (p @ ''-'' @ ds @ '': '' @ rest) = Some (p @ ''-'' @ ds)"
  using assms by (simp add: matchProjectKey_def takeWhile_digits dropWhile_digits)

lemma matchProjectKey_SomeD:
  assumes "matchProjectKey p s = Some k"
  shows "\<exists>ds rest. ds \<noteq> [] \<and> (\<forall>c\<in>set ds. isDigit c) \<and> k = p @ ''-'' @ ds
           \<and> s = k @ '': '' @ rest"
proof -
  from assms have pre: "prefix (p @ ''-'') s"
    by (simp add: matchProjectKey_def split: if_splits)
  then obtain r where s: "s = p @ ''-'' @ r"
    by (auto simp: prefix_def)
  define ds where "ds = takeWhile isDigit r"
  from assms s have ne: "ds \<noteq> []" and pc: "prefix '': '' (dropWhile isDigit r)"
    and k: "k = p @ ''-'' @ ds"
    by (auto simp: matchProjectKey_def Let_def ds_def split: if_splits)
  from pc obtain rest where "dropWhile isDigit r = '': '' @ rest"
    by (auto simp: prefix_def)
  then have "r = ds @ '': '' @ rest"
    unfolding ds_def by (metis takeWhile_dropWhile_id)
  moreover have "\<forall>c\<in>set ds. isDigit c"
    unfolding ds_def by (auto dest: set_takeWhileD)
  ultimately show ?thesis using ne k s by auto
qed

text \<open>With the one project of \<open>jiraProjects\<close>, a match at a position is a title of the
  form of the specification there.\<close>

lemma keyHere_jiraProjects:
  "matchKeyHere (keyAlternatives jiraProjects) s = matchProjectKey ''IR'' s"
  by (simp add: keyAlternatives_def jiraProjects_def split: option.splits)

lemma keyHere_keyedTitle:
  "matchKeyHere (keyAlternatives jiraProjects) t = Some key \<longleftrightarrow> (\<exists>rest. keyedTitle key rest t)"
proof
  assume "matchKeyHere (keyAlternatives jiraProjects) t = Some key"
  then have "matchProjectKey ''IR'' t = Some key"
    by (simp add: keyHere_jiraProjects)
  from matchProjectKey_SomeD[OF this] show "\<exists>rest. keyedTitle key rest t"
    unfolding keyedTitle_def jiraProjects_def by auto
next
  assume "\<exists>rest. keyedTitle key rest t"
  then obtain rest ds where "ds \<noteq> []" "\<forall>c\<in>set ds. isDigit c"
    "key = ''IR'' @ ''-'' @ ds" "t = ''IR'' @ ''-'' @ ds @ '': '' @ rest"
    unfolding keyedTitle_def jiraProjects_def by auto
  then show "matchKeyHere (keyAlternatives jiraProjects) t = Some key"
    using matchProjectKey_marker[of ds "''IR''" rest] by (simp add: keyHere_jiraProjects)
qed

text \<open>\<open>FindStringSubmatch\<close> returns the match at the first position that has one.\<close>

lemma find_None_iff:
  "FindStringSubmatch ps s = None \<longleftrightarrow>
     (\<forall>pre t. s = pre @ t \<longrightarrow> matchKeyHere (keyAlternatives ps) t = None)"
proof (induction s)
  case Nil
  then show ?case by (auto split: option.splits)
next
  case (Cons c s)
  show ?case
  proof (cases "matchKeyHere (keyAlternatives ps) (c # s)")
    case None
    have "(\<forall>pre t. c # s = pre @ t \<longrightarrow> matchKeyHere (keyAlternatives ps) t = None)
       \<longleftrightarrow> (\<forall>pre t. s = pre @ t \<longrightarrow> matchKeyHere (keyAlternatives ps) t = None)"
      using None by (auto simp: Cons_eq_append_conv)
    with None Cons show ?thesis by simp
  next
    case (Some k)
    then have "\<not> (\<forall>pre t. c # s = pre @ t \<longrightarrow> matchKeyHere (keyAlternatives ps) t = None)"
      by (metis append_Nil option.distinct(1))
    with Some show ?thesis by simp
  qed
qed

lemma find_SomeD:
  "FindStringSubmatch ps s = Some (m, k) \<Longrightarrow>
     \<exists>pre t. s = pre @ t \<and> matchKeyHere (keyAlternatives ps) t = Some k \<and> m = k @ '': '' \<and>
       (\<forall>pre' t'. s = pre' @ t' \<and> length pre' < length pre
           \<longrightarrow> matchKeyHere (keyAlternatives ps) t' = None)"
proof (induction s)
  case Nil
  then show ?case by (auto split: option.splits)
next
  case (Cons c s)
  show ?case
  proof (cases "matchKeyHere (keyAlternatives ps) (c # s)")
    case (Some k')
    with Cons.prems have "k' = k" "m = k @ '': ''" by auto
    with Some show ?thesis
      by (intro exI[of _ "[]"] exI[of _ "c # s"]) simp
  next
    case None
    with Cons.prems have "FindStringSubmatch ps s = Some (m, k)" by simp
    from Cons.IH[OF this] obtain pre t where pt: "s = pre @ t"
      "matchKeyHere (keyAlternatives ps) t = Some k" "m = k @ '': ''"
      and left: "\<And>pre' t'. s = pre' @ t' \<Longrightarrow> length pre' < length pre
           \<Longrightarrow> matchKeyHere (keyAlternatives ps) t' = None"
      by blast
    have "\<forall>pre' t'. c # s = pre' @ t' \<and> length pre' < length (c # pre)
           \<longrightarrow> matchKeyHere (keyAlternatives ps) t' = None"
    proof (intro allI impI)
      fix pre' t' assume a: "c # s = pre' @ t' \<and> length pre' < length (c # pre)"
      show "matchKeyHere (keyAlternatives ps) t' = None"
      proof (cases pre')
        case Nil
        with a None show ?thesis by simp
      next
        case (Cons c' p'')
        with a have "s = p'' @ t'" "length p'' < length pre" by auto
        then show ?thesis by (rule left)
      qed
    qed
    with pt show ?thesis
      by (intro exI[of _ "c # pre"] exI[of _ t]) simp
  qed
qed

text \<open>The key that \<open>keyRegexp\<close> extracts has no \<open>W\<close>.\<close>

lemma keyRegexp_key_no_W:
  assumes "keyRegexp_FindStringSubmatch title = Some (m, key)"
  shows "CHR ''W'' \<notin> set key"
proof -
  from find_SomeD[OF assms[unfolded keyRegexp_FindStringSubmatch_def]]
  obtain t where "matchKeyHere (keyAlternatives jiraProjects) t = Some key"
    by blast
  then obtain rest where "keyedTitle key rest t"
    using keyHere_keyedTitle[of t key] by blast
  then obtain ds where "\<forall>c\<in>set ds. isDigit c" "key = ''IR'' @ ''-'' @ ds"
    unfolding keyedTitle_def jiraProjects_def by auto
  then show ?thesis by (auto simp: isDigit_def)
qed

section \<open>Facts about traces\<close>

lemma logged_append [simp]: "logged (xs @ ys) = logged xs @ logged ys"
  by (induction xs rule: logged.induct) auto

lemma requests_append [simp]: "requests (xs @ ys) = requests xs @ requests ys"
  by (induction xs rule: requests.induct) auto

section \<open>Facts about the program\<close>

text \<open>
  The messages of \<open>linkPullRequestToIssue\<close>, once the issue is fetched, are those of
  the switch on the state, but for the three about the linking itself.
\<close>

lemma link_logged_filter:
  assumes "Issue_Get j key = Inr issue"
    and "\<And>t k. \<not> P (Checking t k)" "\<And>t k. \<not> P (AlreadyLinked t k)"
        "\<And>t k. \<not> P (Linking t k)"
  shows "filter P (logged (fst (linkPullRequestToIssue j pr key))) =
         filter P (logged (checkStatus pr key (stripIssueKey (Title pr) key)
           (Fields_Status_Name issue)))"
  using assms
  by (simp add: linkPullRequestToIssue_def Let_def split: sum.splits option.splits prod.splits)

lemma awaiting_no_mismatch [simp]: "filter isMismatch (logged (awaiting pr match)) = []"
  by (simp add: awaiting_def split: option.splits)

lemma awaiting_no_hold [simp]: "filter isHoldReminder (logged (awaiting pr match)) = []"
  by (simp add: awaiting_def split: option.splits)

lemma main_pullRequest_Some:
  assumes "keyRegexp_FindStringSubmatch (Title pr) = Some (m, key)"
  shows "fst (main_pullRequest j pr) =
           awaiting pr (Some (m, key)) @ fst (linkPullRequestToIssue j pr key)"
  using assms by (simp add: main_pullRequest_def split: prod.splits)

lemma checkStatus_mismatch:
  "filter isMismatch (logged (checkStatus pr key title status)) =
     (if State pr = ''open'' then
        (if Contains title ''WIP'' then
           (if status \<noteq> ''In Progress'' then [GotWant key status ''In Progress''] else [])
         else (if status \<noteq> ''Code Review'' then [GotWant key status ''Code Review''] else []))
      else if State pr = ''closed'' \<and> Merged pr then
        (if status \<noteq> ''On QA'' \<and> status \<noteq> ''Done''
         then [GotWant key status ''On QA or Done''] else [])
      else [])"
  by (simp add: checkStatus_def)

text \<open>The expressions on the titles of the examples.\<close>

lemmas keyRegexp_eval =
  keyRegexp_FindStringSubmatch_def jiraProjects_def keyAlternatives_def matchProjectKey_def
  isDigit_def

lemma example_key:
  "keyRegexp_FindStringSubmatch ''IR-123: Fix registry pruning'' = Some (''IR-123: '', ''IR-123'')"
  by (simp add: keyRegexp_eval)

lemma example_key_inside:
  "keyRegexp_FindStringSubmatch ''Fix IR-123: foo'' = Some (''IR-123: '', ''IR-123'')"
  by (simp add: keyRegexp_eval)

lemma example_no_key:
  "keyRegexp_FindStringSubmatch ''Bug 9001: fix crash'' = None"
  by (simp add: keyRegexp_eval)

lemma example_Issue_Get:
  "Issue_Get (example_jira status links) key = Inr \<lparr>Fields_Status_Name = status\<rparr>"
  by (simp add: Issue_Get_def example_jira_def)

lemma example_bug: "bugRegexp_MatchString ''Bug 9001: fix crash''"
  by (simp add: matchBugHere_def isDigit_def)

lemma example_link:
  "pullRequestLink (example_pr title) = ''https://github.com/openshift/image-registry/pull/42''"
  by (simp add: example_pr_def pullRequestLink_def fmt_d_def decimal.simps)

lemma checkStatus_hold:
  "filter isHoldReminder (logged (checkStatus pr key title status)) =
     (if State pr = ''open'' \<and> \<not> contains (pullRequestLabels pr) ''do-not-merge/hold''
      then [NotOnHold (pullRequestLink pr)] else [])"
  by (simp add: checkStatus_def)

lemma checkStatus_no_awaiting [simp]:
  "filter isAwaiting (logged (checkStatus pr key title status)) = []"
  by (simp add: checkStatus_def)

lemma link_no_awaiting [simp]:
  "filter isAwaiting (logged (fst (linkPullRequestToIssue j pr key))) = []"
  by (simp add: linkPullRequestToIssue_def Let_def split: sum.splits option.splits prod.splits)

lemma main_pullRequest_None:
  assumes "keyRegexp_FindStringSubmatch (Title pr) = None"
  shows "main_pullRequest j pr = (awaiting pr None, j, Returned)"
  using assms by (simp add: main_pullRequest_def)

lemma index_team: "index team login \<longleftrightarrow> login \<in> {''dmage'', ''ricardomaraschini''}"
  by (simp add: index_def team_def)

lemma index_teamRepos:
  "index teamRepos repo \<longleftrightarrow>
     repo \<in> {''openshift/cluster-image-registry-operator'', ''openshift/image-registry''}"
  by (simp add: index_def teamRepos_def)

lemma checkStatus_no_remote [simp]: "Remote req err \<notin> set (checkStatus pr key title status)"
  by (simp add: checkStatus_def)

text \<open>A request to create a link carries the link that the function builds, and an
  accepted one stores it.\<close>

lemma link_posts:
  assumes "Remote (Post path link) err \<in> set (fst (linkPullRequestToIssue j pr key))"
  shows "path = ''rest/api/2/issue/'' @ key @ ''/remotelink'' \<and>
         link = \<lparr>Object = \<lparr>URL = pullRequestLink pr,
                   LinkTitle = pullRequestLinkTitle pr @ '': '' @ stripIssueKey (Title pr) key,
                   Icon = Some \<lparr>Url16x16 = ''https://github.com/favicon.ico'',
                                IconTitle = ''GitHub''\<rparr>\<rparr>\<rparr> \<and>
         (err = None \<longrightarrow>
            remoteLinks (fst (snd (linkPullRequestToIssue j pr key))) =
              (remoteLinks j)(key := remoteLinks j key @ [link]))"
  using assms
  by (auto simp: linkPullRequestToIssue_def Let_def Do_POST_remotelink_def
      split: sum.splits option.splits prod.splits if_splits)

text \<open>The run of \<open>linkPullRequestToIssue\<close> on the example of the specification, the
  issue not yet linked.\<close>

lemma example_linkTitle:
  "pullRequestLinkTitle (example_pr title) = ''openshift/image-registry#42''"
  by (simp add: example_pr_def pullRequestLinkTitle_def fmt_d_def decimal.simps)

lemma example_strip:
  "stripIssueKey ''IR-123: Fix registry pruning'' ''IR-123'' = ''Fix registry pruning''"
  by (simp add: stripIssueKey_def HasPrefix_def)

lemma example_checkStatus:
  "checkStatus (example_pr title) key t ''Code Review'' =
     (if Contains t ''WIP'' then
        [Log (V 1) (NotOnHold ''https://github.com/openshift/image-registry/pull/42''),
         Log (V 1) (GotWant key ''Code Review'' ''In Progress'')]
      else [Log (V 1) (NotOnHold ''https://github.com/openshift/image-registry/pull/42'')])"
  by (simp add: checkStatus_def example_link pullRequestLabels_def) (simp add: example_pr_def)

lemma example_GetRemoteLinks:
  "Issue_GetRemoteLinks (example_jira status links) key = Inr links"
  by (simp add: Issue_GetRemoteLinks_def example_jira_def)

lemma example_POST:
  "Do_POST_remotelink (example_jira status links) key link =
     (None, (example_jira status links)\<lparr>remoteLinks := (\<lambda>k. links)(key := links @ [link])\<rparr>)"
  by (simp add: Do_POST_remotelink_def example_jira_def)

lemma example_run:
  "linkPullRequestToIssue (example_jira ''Code Review'' [])
       (example_pr ''IR-123: Fix registry pruning'') ''IR-123'' =
   ([Log (V 3) (Checking ''openshift/image-registry#42'' ''IR-123''),
     Remote (IssueGet ''IR-123'') None,
     Log (V 1) (NotOnHold ''https://github.com/openshift/image-registry/pull/42''),
     Remote (GetRemoteLinks ''IR-123'') None,
     Log (V 1) (Linking ''openshift/image-registry#42'' ''IR-123''),
     Remote (Post ''rest/api/2/issue/IR-123/remotelink''
        \<lparr>Object = \<lparr>URL = ''https://github.com/openshift/image-registry/pull/42'',
                   LinkTitle = ''openshift/image-registry#42: Fix registry pruning'',
                   Icon = Some \<lparr>Url16x16 = ''https://github.com/favicon.ico'',
                                IconTitle = ''GitHub''\<rparr>\<rparr>\<rparr>) None],
    (example_jira ''Code Review'' [])\<lparr>remoteLinks := (\<lambda>k. [])(''IR-123'' :=
       [\<lparr>Object = \<lparr>URL = ''https://github.com/openshift/image-registry/pull/42'',
                   LinkTitle = ''openshift/image-registry#42: Fix registry pruning'',
                   Icon = Some \<lparr>Url16x16 = ''https://github.com/favicon.ico'',
                                IconTitle = ''GitHub''\<rparr>\<rparr>\<rparr>])\<rparr>,
    Returned)"
proof -
  have t: "Title (example_pr ''IR-123: Fix registry pruning'') = ''IR-123: Fix registry pruning''"
    by (simp add: example_pr_def)
  have w: "\<not> Contains ''Fix registry pruning'' ''WIP''"
    by simp
  show ?thesis
    by (simp add: linkPullRequestToIssue_def Let_def t example_GetRemoteLinks example_POST example_Issue_Get example_link
        example_linkTitle example_strip example_checkStatus w del: Contains.simps)
qed

lemma awaiting_shape:
  "requests (awaiting pr match) = [] \<and> (\<forall>msg\<in>set (logged (awaiting pr match)). isAwaiting msg)
     \<and> length (awaiting pr match) \<le> 1"
  by (simp add: awaiting_def split: option.splits)

lemma checkStatus_all_statusCheck [simp]:
  "filter (\<lambda>ev. \<not> isStatusCheck ev) (checkStatus pr key title status) = []"
  by (simp add: checkStatus_def)

lemma checkStatus_no_requests [simp]: "requests (checkStatus pr key title status) = []"
  by (simp add: checkStatus_def)

lemma main_go_stripIssueKey:
  "linkPullRequestToIssue_main_go jiraClient pr issueKey =
     (let checking = [Log (V 3) (Checking (pullRequestLinkTitle pr) issueKey)];
          title = stripIssueKey (Title pr) issueKey
      in case Issue_GetRemoteLinks jiraClient issueKey of
           Inl err \<Rightarrow>
             (checking @ [Remote (GetRemoteLinks issueKey) (Some err)], jiraClient, Fatal err)
         | Inr links \<Rightarrow>
             (let fetched = checking @ [Remote (GetRemoteLinks issueKey) None];
                  remoteURL = pullRequestLink pr;
                  remoteTitle = pullRequestLinkTitle pr @ '': '' @ title
              in if linked links remoteURL then
                   (fetched @ [Log (V 3) (AlreadyLinked (pullRequestLinkTitle pr) issueKey)],
                    jiraClient, Returned)
                 else
                   (let linking = fetched @
                          [Log (V 1) (Linking (pullRequestLinkTitle pr) issueKey)];
                        link = \<lparr>Object = \<lparr>URL = remoteURL, LinkTitle = remoteTitle,
                                 Icon = Some \<lparr>Url16x16 = ''https://github.com/favicon.ico'',
                                              IconTitle = ''GitHub''\<rparr>\<rparr>\<rparr>;
                        path = ''rest/api/2/issue/'' @ issueKey @ ''/remotelink''
                    in case Do_POST_remotelink jiraClient issueKey link of
                         (Some err, jiraClient') \<Rightarrow>
                           (linking @ [Remote (Post path link) (Some err)],
                            jiraClient', Fatal err)
                       | (None, jiraClient') \<Rightarrow>
                           (linking @ [Remote (Post path link) None],
                            jiraClient', Returned))))"
  unfolding linkPullRequestToIssue_main_go_def stripIssueKey_def ..

lemma find_at_start:
  assumes "matchKeyHere (keyAlternatives ps) s = Some k"
  shows "FindStringSubmatch ps s = Some (k @ '': '', k)"
  using assms by (cases s) simp_all

lemma keyedTitle_strip:
  assumes "keyedTitle key rest title"
  shows "stripIssueKey title key = rest"
proof -
  from assms have t: "title = (key @ '': '') @ rest"
    by (auto simp: keyedTitle_def)
  have "drop (length xs) (xs @ rest) = rest" for xs :: string
    by simp
  then have "drop (length (key @ '': '')) ((key @ '': '') @ rest) = rest" .
  then show ?thesis
    unfolding stripIssueKey_def HasPrefix_def t by (simp only: prefixI[OF refl] if_True)
qed

lemma keyedTitle_prefix:
  assumes "keyedTitle key rest t" and "HasPrefix title (key @ '': '')"
  shows "\<exists>rest'. keyedTitle key rest' title"
proof -
  from assms(2) obtain rest' where "title = key @ '': '' @ rest'"
    by (auto simp: HasPrefix_def prefix_def)
  with assms(1) have "keyedTitle key rest' title"
    unfolding keyedTitle_def by auto
  then show ?thesis ..
qed

lemma example_keyedTitle:
  "keyedTitle ''IR-123'' ''Fix registry pruning'' ''IR-123: Fix registry pruning''"
  unfolding keyedTitle_def
  by (intro exI[of _ "''IR''"] exI[of _ "''123''"]) (simp add: jiraProjects_def isDigit_def)

lemma created_append [simp]: "created (xs @ ys) = created xs @ created ys"
  by (induction xs rule: created.induct) auto

lemma checkStatus_created [simp]: "created (checkStatus pr key title status) = []"
  by (simp add: checkStatus_def)

lemma linked_append [simp]: "linked (xs @ ys) u \<longleftrightarrow> linked xs u \<or> linked ys u"
  by (induction xs) auto

text \<open>One call: what it creates and how it leaves the issue tracker.\<close>

lemma link_once:
  "(linked (remoteLinks j key) (pullRequestLink pr) \<longrightarrow>
      filter isPost (requests (fst (linkPullRequestToIssue j pr key))) = []) \<and>
   fst (snd (linkPullRequestToIssue j pr key)) =
      j\<lparr>remoteLinks := (remoteLinks j)(key := remoteLinks j key @
            created (fst (linkPullRequestToIssue j pr key)))\<rparr> \<and>
   length (created (fst (linkPullRequestToIssue j pr key))) \<le> 1 \<and>
   (created (fst (linkPullRequestToIssue j pr key)) \<noteq> [] \<longrightarrow>
      \<not> linked (remoteLinks j key) (pullRequestLink pr)) \<and>
   (snd (snd (linkPullRequestToIssue j pr key)) = Returned \<longrightarrow>
      linked (remoteLinks j key @ created (fst (linkPullRequestToIssue j pr key)))
        (pullRequestLink pr))"
  by (simp add: linkPullRequestToIssue_def Let_def Issue_GetRemoteLinks_def
      Do_POST_remotelink_def split: sum.splits option.splits prod.splits)


lemma posts_created: "filter isPost (requests evs) = [] \<Longrightarrow> created evs = []"
  by (induction evs rule: created.induct) (auto split: if_splits)

lemma fits_Returned [simp]: "fits evs Returned \<longleftrightarrow> (\<forall>ev\<in>set evs. failure ev = None)"
  by (simp add: fits_def)

lemma fits_Fatal [simp]:
  "fits evs (Fatal err) \<longleftrightarrow>
     evs \<noteq> [] \<and> (\<forall>ev\<in>set (butlast evs). failure ev = None) \<and> failure (last evs) = Some err"
  by (simp add: fits_def)

lemma fits_append:
  assumes "\<forall>ev\<in>set evs. failure ev = None" and "fits evs' out"
  shows "fits (evs @ evs') out"
proof (cases out)
  case Returned
  with assms show ?thesis by auto
next
  case (Fatal err)
  with assms show ?thesis
    by (auto simp: butlast_append)
qed

lemma checkStatus_no_failure [simp]:
  "ev \<in> set (checkStatus pr key title status) \<Longrightarrow> failure ev = None"
  by (auto simp: checkStatus_def split: if_splits)

lemma awaiting_no_failure [simp]: "ev \<in> set (awaiting pr match) \<Longrightarrow> failure ev = None"
  by (auto simp: awaiting_def split: option.splits if_splits)

lemma link_fits:
  "fits (fst (linkPullRequestToIssue j pr key)) (snd (snd (linkPullRequestToIssue j pr key)))"
  by (auto simp: linkPullRequestToIssue_def Let_def butlast_append
      split: sum.splits option.splits prod.splits)

lemma main_pullRequest_fits:
  "fits (fst (main_pullRequest j pr)) (snd (snd (main_pullRequest j pr)))"
proof (cases "keyRegexp_FindStringSubmatch (Title pr)")
  case None
  then show ?thesis by (simp add: main_pullRequest_None)
next
  case (Some match)
  obtain m key where "match = (m, key)" by (cases match)
  with Some have "main_pullRequest j pr =
      (awaiting pr (Some (m, key)) @ fst (linkPullRequestToIssue j pr key),
       snd (linkPullRequestToIssue j pr key))"
    by (simp add: main_pullRequest_def split: prod.splits)
  then show ?thesis
    using fits_append[OF _ link_fits, of "awaiting pr (Some (m, key))" j pr key] by simp
qed

lemma main_pullRequests_fits:
  "fits (fst (main_pullRequests j prs)) (snd (snd (main_pullRequests j prs)))"
proof (induction prs arbitrary: j)
  case Nil
  then show ?case by simp
next
  case (Cons pr prs)
  obtain evs j' out where one: "main_pullRequest j pr = (evs, j', out)"
    by (cases "main_pullRequest j pr") auto
  with main_pullRequest_fits[of j pr] have f: "fits evs out" by simp
  show ?case
  proof (cases out)
    case (Fatal err)
    with one f show ?thesis by simp
  next
    case Returned
    obtain evs' j'' out' where rest: "main_pullRequests j' prs = (evs', j'', out')"
      by (cases "main_pullRequests j' prs") auto
    with Cons.IH[of j'] have "fits evs' out'" by simp
    with f Returned have "fits (evs @ evs') out'"
      by (intro fits_append) simp_all
    with one Returned rest show ?thesis by simp
  qed
qed

lemma main_repositories_fits:
  "fits (fst (main_repositories g j repos)) (snd (snd (main_repositories g j repos)))"
proof (induction repos arbitrary: j)
  case Nil
  then show ?case by simp
next
  case (Cons repo repos)
  show ?case
  proof (cases "g (Owner repo) (RepoName repo)")
    case (Inl err)
    then show ?thesis by (simp add: Let_def)
  next
    case (Inr prs)
    obtain evs j' out where one: "main_pullRequests j prs = (evs, j', out)"
      by (cases "main_pullRequests j prs") auto
    with main_pullRequests_fits[of j prs] have f: "fits evs out" by simp
    define head where "head = [Log (V 2) (Analyzing (Owner repo) (RepoName repo)),
       Remote (PullRequestsList (Owner repo) (RepoName repo)) None]"
    have h: "\<forall>ev\<in>set head. failure ev = None" by (simp add: head_def)
    show ?thesis
    proof (cases out)
      case (Fatal err)
      with f h have "fits (head @ evs) (Fatal err)"
        by (intro fits_append) simp_all
      with Inr one Fatal show ?thesis by (simp add: Let_def head_def)
    next
      case Returned
      obtain evs' j'' out' where rest: "main_repositories g j' repos = (evs', j'', out')"
        by (cases "main_repositories g j' repos") auto
      with Cons.IH[of j'] have "fits evs' out'" by simp
      with f Returned have "fits (evs @ evs') out'"
        by (intro fits_append) simp_all
      with h have "fits (head @ evs @ evs') out'"
        by (rule fits_append)
      with Inr one Returned rest show ?thesis by (simp add: Let_def head_def)
    qed
  qed
qed


lemma fits_main: "fits (fst (main g j)) (snd (snd (main g j)))"
  unfolding main_def by (rule main_repositories_fits)

lemma advisory_checkStatus [simp]:
  "ev \<in> set (checkStatus pr key title status) \<Longrightarrow> advisoryLevel ev"
  by (auto simp: checkStatus_def split: if_splits)

lemma advisory_awaiting [simp]: "ev \<in> set (awaiting pr match) \<Longrightarrow> advisoryLevel ev"
  by (auto simp: awaiting_def split: if_splits option.splits)

lemma advisory_link: "ev \<in> set (fst (linkPullRequestToIssue j pr key)) \<Longrightarrow> advisoryLevel ev"
  by (auto simp: linkPullRequestToIssue_def Let_def
      split: sum.splits option.splits prod.splits if_splits)

lemma advisory_main_pullRequest:
  "ev \<in> set (fst (main_pullRequest j pr)) \<Longrightarrow> advisoryLevel ev"
proof (cases "keyRegexp_FindStringSubmatch (Title pr)")
  case None
  assume "ev \<in> set (fst (main_pullRequest j pr))"
  with None show ?thesis by (simp add: main_pullRequest_None)
next
  case (Some match)
  assume a: "ev \<in> set (fst (main_pullRequest j pr))"
  obtain m key where "match = (m, key)" by (cases match)
  with Some a show ?thesis
    by (auto simp: main_pullRequest_Some dest: advisory_link)
qed

lemma advisory_main_pullRequests:
  "\<forall>ev\<in>set (fst (main_pullRequests j prs)). advisoryLevel ev"
proof (induction prs arbitrary: j)
  case Nil
  then show ?case by simp
next
  case (Cons pr prs)
  obtain evs j' out where one: "main_pullRequest j pr = (evs, j', out)"
    by (cases "main_pullRequest j pr") auto
  with advisory_main_pullRequest[of _ j pr] have m: "\<forall>ev\<in>set evs. advisoryLevel ev"
    by simp
  obtain evs' j'' out' where rest: "main_pullRequests j' prs = (evs', j'', out')"
    by (cases "main_pullRequests j' prs") auto
  with Cons.IH[of j'] have m': "\<forall>ev\<in>set evs'. advisoryLevel ev"
    by simp
  from one rest m m' show ?case
    by (cases out) auto
qed

lemma advisory_main_repositories:
  "\<forall>ev\<in>set (fst (main_repositories g j repos)). advisoryLevel ev"
proof (induction repos arbitrary: j)
  case Nil
  then show ?case by simp
next
  case (Cons repo repos)
  show ?case
  proof (cases "g (Owner repo) (RepoName repo)")
    case (Inl err)
    then show ?thesis by (auto simp: Let_def)
  next
    case (Inr prs)
    obtain evs j' out where one: "main_pullRequests j prs = (evs, j', out)"
      by (cases "main_pullRequests j prs") auto
    with advisory_main_pullRequests[of j prs]
    have m: "\<forall>ev\<in>set evs. advisoryLevel ev"
      by simp
    obtain evs' j'' out' where rest: "main_repositories g j' repos = (evs', j'', out')"
      by (cases "main_repositories g j' repos") auto
    with Cons.IH[of j'] have m': "\<forall>ev\<in>set evs'. advisoryLevel ev"
      by simp
    from Inr one rest m m' show ?thesis
      by (cases out) (auto simp: Let_def)
  qed
qed

lemma example_checkStatus_mismatch:
  "checkStatus (example_pr title) key ''Fix registry pruning'' ''In Progress'' =
     [Log (V 1) (NotOnHold ''https://github.com/openshift/image-registry/pull/42''),
      Log (V 1) (GotWant key ''In Progress'' ''Code Review'')]"
  by (simp add: checkStatus_def example_link pullRequestLabels_def) (simp add: example_pr_def)

lemma example_pullRequest:
  "main_pullRequest (example_jira ''In Progress'' [])
       (example_pr ''IR-123: Fix registry pruning'') =
   ([Log (V 1) (AwaitingFeature ''https://github.com/openshift/image-registry/pull/42''
        ''IR-123: Fix registry pruning''),
     Log (V 3) (Checking ''openshift/image-registry#42'' ''IR-123''),
     Remote (IssueGet ''IR-123'') None,
     Log (V 1) (NotOnHold ''https://github.com/openshift/image-registry/pull/42''),
     Log (V 1) (GotWant ''IR-123'' ''In Progress'' ''Code Review''),
     Remote (GetRemoteLinks ''IR-123'') None,
     Log (V 1) (Linking ''openshift/image-registry#42'' ''IR-123''),
     Remote (Post ''rest/api/2/issue/IR-123/remotelink''
        \<lparr>Object = \<lparr>URL = ''https://github.com/openshift/image-registry/pull/42'',
                   LinkTitle = ''openshift/image-registry#42: Fix registry pruning'',
                   Icon = Some \<lparr>Url16x16 = ''https://github.com/favicon.ico'',
                                IconTitle = ''GitHub''\<rparr>\<rparr>\<rparr>) None],
    (example_jira ''In Progress'' [])\<lparr>remoteLinks := (\<lambda>k. [])(''IR-123'' :=
       [\<lparr>Object = \<lparr>URL = ''https://github.com/openshift/image-registry/pull/42'',
                   LinkTitle = ''openshift/image-registry#42: Fix registry pruning'',
                   Icon = Some \<lparr>Url16x16 = ''https://github.com/favicon.ico'',
                                IconTitle = ''GitHub''\<rparr>\<rparr>\<rparr>])\<rparr>,
    Returned)"
proof -
  have t: "Title (example_pr ''IR-123: Fix registry pruning'') = ''IR-123: Fix registry pruning''"
    "State (example_pr ''IR-123: Fix registry pruning'') = ''open''"
    "User_Login (example_pr ''IR-123: Fix registry pruning'') = ''dmage''"
    by (simp_all add: example_pr_def)
  have a: "awaiting (example_pr ''IR-123: Fix registry pruning'') (Some (''IR-123: '', ''IR-123''))
     = [Log (V 1) (AwaitingFeature ''https://github.com/openshift/image-registry/pull/42''
        ''IR-123: Fix registry pruning'')]"
    by (simp add: awaiting_def t index_team example_link)
  have l: "linkPullRequestToIssue (example_jira ''In Progress'' [])
       (example_pr ''IR-123: Fix registry pruning'') ''IR-123'' =
   ([Log (V 3) (Checking ''openshift/image-registry#42'' ''IR-123''),
     Remote (IssueGet ''IR-123'') None,
     Log (V 1) (NotOnHold ''https://github.com/openshift/image-registry/pull/42''),
     Log (V 1) (GotWant ''IR-123'' ''In Progress'' ''Code Review''),
     Remote (GetRemoteLinks ''IR-123'') None,
     Log (V 1) (Linking ''openshift/image-registry#42'' ''IR-123''),
     Remote (Post ''rest/api/2/issue/IR-123/remotelink''
        \<lparr>Object = \<lparr>URL = ''https://github.com/openshift/image-registry/pull/42'',
                   LinkTitle = ''openshift/image-registry#42: Fix registry pruning'',
                   Icon = Some \<lparr>Url16x16 = ''https://github.com/favicon.ico'',
                                IconTitle = ''GitHub''\<rparr>\<rparr>\<rparr>) None],
    (example_jira ''In Progress'' [])\<lparr>remoteLinks := (\<lambda>k. [])(''IR-123'' :=
       [\<lparr>Object = \<lparr>URL = ''https://github.com/openshift/image-registry/pull/42'',
                   LinkTitle = ''openshift/image-registry#42: Fix registry pruning'',
                   Icon = Some \<lparr>Url16x16 = ''https://github.com/favicon.ico'',
                                IconTitle = ''GitHub''\<rparr>\<rparr>\<rparr>])\<rparr>,
    Returned)"
    by (simp add: linkPullRequestToIssue_def Let_def t example_GetRemoteLinks example_POST
        example_Issue_Get example_link example_linkTitle example_strip
        example_checkStatus_mismatch)
  show ?thesis
    by (simp add: main_pullRequest_def t example_key a l del: FindStringSubmatch.simps)
qed

lemma example_main:
  "main example_github (example_jira ''In Progress'' []) =
   ([Log (V 2) (Analyzing ''openshift'' ''api''),
     Remote (PullRequestsList ''openshift'' ''api'') None,
     Log (V 2) (Analyzing ''openshift'' ''cluster-image-registry-operator''),
     Remote (PullRequestsList ''openshift'' ''cluster-image-registry-operator'') None,
     Log (V 2) (Analyzing ''openshift'' ''cluster-monitoring-operator''),
     Remote (PullRequestsList ''openshift'' ''cluster-monitoring-operator'') None,
     Log (V 2) (Analyzing ''openshift'' ''docker-distribution''),
     Remote (PullRequestsList ''openshift'' ''docker-distribution'') None,
     Log (V 2) (Analyzing ''openshift'' ''image-registry''),
     Remote (PullRequestsList ''openshift'' ''image-registry'') None,
     Log (V 1) (AwaitingFeature ''https://github.com/openshift/image-registry/pull/42''
        ''IR-123: Fix registry pruning''),
     Log (V 3) (Checking ''openshift/image-registry#42'' ''IR-123''),
     Remote (IssueGet ''IR-123'') None,
     Log (V 1) (NotOnHold ''https://github.com/openshift/image-registry/pull/42''),
     Log (V 1) (GotWant ''IR-123'' ''In Progress'' ''Code Review''),
     Remote (GetRemoteLinks ''IR-123'') None,
     Log (V 1) (Linking ''openshift/image-registry#42'' ''IR-123''),
     Remote (Post ''rest/api/2/issue/IR-123/remotelink''
        \<lparr>Object = \<lparr>URL = ''https://github.com/openshift/image-registry/pull/42'',
                   LinkTitle = ''openshift/image-registry#42: Fix registry pruning'',
                   Icon = Some \<lparr>Url16x16 = ''https://github.com/favicon.ico'',
                                IconTitle = ''GitHub''\<rparr>\<rparr>\<rparr>) None,
     Log (V 2) (Analyzing ''openshift'' ''oc''),
     Remote (PullRequestsList ''openshift'' ''oc'') (Some (Error ''rate limit exceeded''))],
    (example_jira ''In Progress'' [])\<lparr>remoteLinks := (\<lambda>k. [])(''IR-123'' :=
       [\<lparr>Object = \<lparr>URL = ''https://github.com/openshift/image-registry/pull/42'',
                   LinkTitle = ''openshift/image-registry#42: Fix registry pruning'',
                   Icon = Some \<lparr>Url16x16 = ''https://github.com/favicon.ico'',
                                IconTitle = ''GitHub''\<rparr>\<rparr>\<rparr>])\<rparr>,
    Fatal (Error ''rate limit exceeded''))"
  by (simp add: main_def repositories_def example_github_def Let_def example_pullRequest)

section \<open>The status check against the state of the pull request\<close>

text \<open>
  Claim C3. For a pull request whose title gave a key and whose issue was fetched, the
  mismatch messages of its processing are those of the table: when it is open and its
  title contains WIP, one message iff the status is not In Progress; when it is open
  without WIP, one iff the status is not Code Review; when it is closed and merged, one
  iff the status is neither On QA nor Done; none when it is closed and not merged (or
  in any other state). There is at most one such message for a pull request.
\<close>

theorem status_mismatch_table:
  assumes "keyRegexp_FindStringSubmatch (Title pr) = Some (m, key)"
      and "Issue_Get jiraClient key = Inr issue"
  shows "filter isMismatch (logged (fst (main_pullRequest jiraClient pr))) =
     (if State pr = ''open'' then
        (if Contains (Title pr) ''WIP'' then
           (if Fields_Status_Name issue \<noteq> ''In Progress''
            then [GotWant key (Fields_Status_Name issue) ''In Progress''] else [])
         else
           (if Fields_Status_Name issue \<noteq> ''Code Review''
            then [GotWant key (Fields_Status_Name issue) ''Code Review''] else []))
      else if State pr = ''closed'' \<and> Merged pr then
        (if Fields_Status_Name issue \<noteq> ''On QA'' \<and> Fields_Status_Name issue \<noteq> ''Done''
         then [GotWant key (Fields_Status_Name issue) ''On QA or Done''] else [])
      else [])
   \<and> length (filter isMismatch (logged (fst (main_pullRequest jiraClient pr)))) \<le> 1"
proof -
  have w: "Contains (stripIssueKey (Title pr) key) ''WIP'' = Contains (Title pr) ''WIP''"
    using keyRegexp_key_no_W[OF assms(1)] by (rule Contains_stripIssueKey)
  have "filter isMismatch (logged (fst (main_pullRequest jiraClient pr))) =
        filter isMismatch (logged (checkStatus pr key (stripIssueKey (Title pr) key)
          (Fields_Status_Name issue)))"
    by (simp add: main_pullRequest_Some[OF assms(1)] link_logged_filter[OF assms(2)])
  then show ?thesis
    by (simp add: checkStatus_mismatch w)
qed

theorem status_mismatch_table_witness:
  "keyRegexp_FindStringSubmatch (Title (example_pr ''IR-123: Fix registry pruning''))
     = Some (''IR-123: '', ''IR-123'') \<and>
   Issue_Get (example_jira ''In Progress'' []) ''IR-123''
     = Inr \<lparr>Fields_Status_Name = ''In Progress''\<rparr> \<and>
   filter isMismatch (logged (fst (main_pullRequest (example_jira ''In Progress'' [])
       (example_pr ''IR-123: Fix registry pruning'')))) =
     [GotWant ''IR-123'' ''In Progress'' ''Code Review''] \<and>
   filter isMismatch (logged (fst (main_pullRequest (example_jira ''Code Review'' [])
       (example_pr ''IR-123: Fix registry pruning'')))) = []"
proof -
  have k: "keyRegexp_FindStringSubmatch (Title (example_pr ''IR-123: Fix registry pruning''))
     = Some (''IR-123: '', ''IR-123'')"
    by (simp add: example_pr_def example_key)
  show ?thesis
    using status_mismatch_table[OF k example_Issue_Get[of "''In Progress''" "[]"]]
      status_mismatch_table[OF k example_Issue_Get[of "''Code Review''" "[]"]] k
    by (simp add: example_pr_def example_Issue_Get)
qed

section \<open>The classification of open pull requests\<close>

text \<open>
  Claim C5. The processing of a pull request logs exactly one message of the
  classification when the pull request is open, its author is in the team or its
  repository is one of the team's, and its title does not contain WIP: "not assigned"
  when no key was extracted and the bug expression does not match, "awaiting review
  (bugfix)" when no key was extracted and the bug expression matches, "awaiting review
  (feature)" when a key was extracted. In every other case (not open, WIP in the title,
  neither the author nor the repository tracked) it logs none.
\<close>

theorem awaiting_classification:
  "filter isAwaiting (logged (fst (main_pullRequest jiraClient pr))) =
     (if State pr = ''open'' \<and>
         (User_Login pr \<in> {''dmage'', ''ricardomaraschini''} \<or>
          Base_Repo_FullName pr \<in>
            {''openshift/cluster-image-registry-operator'', ''openshift/image-registry''}) \<and>
         \<not> Contains (Title pr) ''WIP''
      then [case keyRegexp_FindStringSubmatch (Title pr) of
              None \<Rightarrow> if bugRegexp_MatchString (Title pr)
                      then AwaitingBugfix (pullRequestLink pr) (Title pr)
                      else NotAssigned (pullRequestLink pr) (Title pr)
            | Some match \<Rightarrow> AwaitingFeature (pullRequestLink pr) (Title pr)]
      else [])"
proof (cases "keyRegexp_FindStringSubmatch (Title pr)")
  case None
  then show ?thesis
    by (simp add: main_pullRequest_None awaiting_def index_team index_teamRepos)
next
  case (Some match)
  obtain m key where "match = (m, key)" by (cases match)
  with Some show ?thesis
    by (simp add: main_pullRequest_Some awaiting_def index_team index_teamRepos)
qed

theorem awaiting_classification_witness:
  "filter isAwaiting (logged (fst (main_pullRequest (example_jira ''Code Review'' [])
       (example_pr ''Bug 9001: fix crash'')))) =
     [AwaitingBugfix ''https://github.com/openshift/image-registry/pull/42''
        ''Bug 9001: fix crash''] \<and>
   filter isAwaiting (logged (fst (main_pullRequest (example_jira ''Code Review'' [])
       (example_pr ''Fix registry pruning'')))) =
     [NotAssigned ''https://github.com/openshift/image-registry/pull/42''
        ''Fix registry pruning''] \<and>
   filter isAwaiting (logged (fst (main_pullRequest (example_jira ''Code Review'' [])
       (example_pr ''IR-123: Fix registry pruning'')))) =
     [AwaitingFeature ''https://github.com/openshift/image-registry/pull/42''
        ''IR-123: Fix registry pruning''] \<and>
   filter isAwaiting (logged (fst (main_pullRequest (example_jira ''Code Review'' [])
       (example_pr ''WIP IR-123: Fix registry pruning'')))) = [] \<and>
   filter isAwaiting (logged (fst (main_pullRequest (example_jira ''Code Review'' [])
       ((example_pr ''IR-123: Fix registry pruning'')\<lparr>State := ''closed''\<rparr>)))) = [] \<and>
   filter isAwaiting (logged (fst (main_pullRequest (example_jira ''Code Review'' [])
       ((example_pr ''IR-123: Fix registry pruning'')
          \<lparr>User_Login := ''someone'', Base_Repo_FullName := ''openshift/origin''\<rparr>)))) = []"
proof -
  have t: "Title (example_pr title) = title" "State (example_pr title) = ''open''"
    "User_Login (example_pr title) = ''dmage''" for title
    by (simp_all add: example_pr_def)
  have n: "keyRegexp_FindStringSubmatch ''Fix registry pruning'' = None"
    "\<not> bugRegexp_MatchString ''Fix registry pruning''"
    by (simp_all add: keyRegexp_eval matchBugHere_def)
  show ?thesis
    unfolding awaiting_classification
    by (simp add: t n example_key example_no_key example_bug example_link
          del: bugRegexp_MatchString.simps FindStringSubmatch.simps)
qed

section \<open>The hold label\<close>

text \<open>
  Claim C9. Where the reminder about the hold label is decided (an open pull request
  whose issue was fetched), it is left out iff one of the labels of the pull request
  has exactly the name do-not-merge/hold; otherwise it is logged once. A label named
  hold, or a longer name that contains do-not-merge/hold, does not suppress it.
\<close>

theorem hold_label_exact:
  assumes "Issue_Get jiraClient key = Inr issue" and "State pr = ''open''"
  shows "contains (pullRequestLabels pr) ''do-not-merge/hold''
           = (\<exists>label\<in>set (Labels pr). Name label = ''do-not-merge/hold'') \<and>
         filter isHoldReminder (logged (fst (linkPullRequestToIssue jiraClient pr key))) =
           (if \<exists>label\<in>set (Labels pr). Name label = ''do-not-merge/hold'' then []
            else [NotOnHold (pullRequestLink pr)])"
proof -
  have c: "contains (pullRequestLabels pr) ''do-not-merge/hold''
           = (\<exists>label\<in>set (Labels pr). Name label = ''do-not-merge/hold'')"
    unfolding contains_iff pullRequestLabels_def set_map image_iff by metis
  have "filter isHoldReminder (logged (fst (linkPullRequestToIssue jiraClient pr key))) =
        filter isHoldReminder (logged (checkStatus pr key (stripIssueKey (Title pr) key)
          (Fields_Status_Name issue)))"
    by (simp add: link_logged_filter[OF assms(1)])
  with c assms(2) show ?thesis
    by (simp add: checkStatus_hold)
qed

theorem hold_label_exact_witness:
  "filter isHoldReminder (logged (fst (linkPullRequestToIssue (example_jira ''Code Review'' [])
      ((example_pr ''IR-123: Fix registry pruning'')
         \<lparr>Labels := [\<lparr>Name = ''hold''\<rparr>, \<lparr>Name = ''do-not-merge/hold ''\<rparr>]\<rparr>) ''IR-123'')))
     = [NotOnHold ''https://github.com/openshift/image-registry/pull/42''] \<and>
   filter isHoldReminder (logged (fst (linkPullRequestToIssue (example_jira ''Code Review'' [])
      ((example_pr ''IR-123: Fix registry pruning'')
         \<lparr>Labels := [\<lparr>Name = ''lgtm''\<rparr>, \<lparr>Name = ''do-not-merge/hold''\<rparr>]\<rparr>) ''IR-123''))) = []"
proof -
  have i: "Issue_Get (example_jira ''Code Review'' []) ''IR-123''
             = Inr \<lparr>Fields_Status_Name = ''Code Review''\<rparr>"
    by (rule example_Issue_Get)
  have o1: "State ((example_pr ''IR-123: Fix registry pruning'')
         \<lparr>Labels := [\<lparr>Name = ''hold''\<rparr>, \<lparr>Name = ''do-not-merge/hold ''\<rparr>]\<rparr>) = ''open''"
    by (simp add: example_pr_def)
  have o2: "State ((example_pr ''IR-123: Fix registry pruning'')
         \<lparr>Labels := [\<lparr>Name = ''lgtm''\<rparr>, \<lparr>Name = ''do-not-merge/hold''\<rparr>]\<rparr>) = ''open''"
    by (simp add: example_pr_def)
  show ?thesis
    using hold_label_exact[OF i o1] hold_label_exact[OF i o2]
    by (simp add: example_pr_def pullRequestLink_def fmt_d_def decimal.simps)
qed

section \<open>The link that is created\<close>

text \<open>
  Claim C6. A request to create a remote link, when \<open>linkPullRequestToIssue\<close> makes
  one for a repository \<open>owner/repo\<close>, carries the URL
  \<open>https://github.com/owner/repo/pull/number\<close>, the title \<open>owner/repo#number: residual\<close>,
  where the residual is the title of the pull request without its leading \<open>key: \<close> when
  it has one and the whole title otherwise, and the icon of GitHub with its fixed
  favicon. When the request is accepted, this link is stored last for the issue.
\<close>

theorem created_link_fields:
  assumes "Remote (Post path link) err \<in> set (fst (linkPullRequestToIssue jiraClient pr key))"
      and "Base_Repo_FullName pr = owner @ ''/'' @ repo"
  shows "URL (Object link) =
           ''https://github.com/'' @ owner @ ''/'' @ repo @ ''/pull/'' @ fmt_d (Number pr) \<and>
         LinkTitle (Object link) =
           owner @ ''/'' @ repo @ ''#'' @ fmt_d (Number pr) @ '': '' @
             (if HasPrefix (Title pr) (key @ '': '') then drop (length key + 2) (Title pr)
              else Title pr) \<and>
         Icon (Object link) =
           Some \<lparr>Url16x16 = ''https://github.com/favicon.ico'', IconTitle = ''GitHub''\<rparr> \<and>
         (err = None \<longrightarrow>
            remoteLinks (fst (snd (linkPullRequestToIssue jiraClient pr key))) key =
              remoteLinks jiraClient key @ [link])"
  using link_posts[OF assms(1)] assms(2)
  by (simp add: pullRequestLink_def pullRequestLinkTitle_def stripIssueKey_def)

theorem created_link_fields_witness:
  "Remote (Post ''rest/api/2/issue/IR-123/remotelink''
        \<lparr>Object = \<lparr>URL = ''https://github.com/openshift/image-registry/pull/42'',
                   LinkTitle = ''openshift/image-registry#42: Fix registry pruning'',
                   Icon = Some \<lparr>Url16x16 = ''https://github.com/favicon.ico'',
                                IconTitle = ''GitHub''\<rparr>\<rparr>\<rparr>) None
     \<in> set (fst (linkPullRequestToIssue (example_jira ''Code Review'' [])
           (example_pr ''IR-123: Fix registry pruning'') ''IR-123'')) \<and>
   Base_Repo_FullName (example_pr ''IR-123: Fix registry pruning'')
     = ''openshift'' @ ''/'' @ ''image-registry'' \<and>
   ''openshift/image-registry#42: Fix registry pruning'' =
     ''openshift'' @ ''/'' @ ''image-registry'' @ ''#'' @ fmt_d 42 @ '': '' @
       drop (length ''IR-123'' + 2) ''IR-123: Fix registry pruning'' \<and>
   remoteLinks (fst (snd (linkPullRequestToIssue (example_jira ''Code Review'' [])
       (example_pr ''IR-123: Fix registry pruning'') ''IR-123''))) ''IR-123'' =
     [\<lparr>Object = \<lparr>URL = ''https://github.com/openshift/image-registry/pull/42'',
                 LinkTitle = ''openshift/image-registry#42: Fix registry pruning'',
                 Icon = Some \<lparr>Url16x16 = ''https://github.com/favicon.ico'',
                              IconTitle = ''GitHub''\<rparr>\<rparr>\<rparr>]"
proof -
  let ?link = "\<lparr>Object = \<lparr>URL = ''https://github.com/openshift/image-registry/pull/42'',
                   LinkTitle = ''openshift/image-registry#42: Fix registry pruning'',
                   Icon = Some \<lparr>Url16x16 = ''https://github.com/favicon.ico'',
                                IconTitle = ''GitHub''\<rparr>\<rparr>\<rparr>"
  have m: "Remote (Post ''rest/api/2/issue/IR-123/remotelink'' ?link) None
     \<in> set (fst (linkPullRequestToIssue (example_jira ''Code Review'' [])
           (example_pr ''IR-123: Fix registry pruning'') ''IR-123''))"
    by (simp add: example_run)
  have b: "Base_Repo_FullName (example_pr ''IR-123: Fix registry pruning'')
     = ''openshift'' @ ''/'' @ ''image-registry''"
    by (simp add: example_pr_def)
  show ?thesis
    using created_link_fields[OF m b] m b
    by (simp add: example_pr_def example_jira_def HasPrefix_def)
qed

section \<open>The reminder about the hold label and the key\<close>

text \<open>
  Claim C4, as the specification states it: every open pull request without the hold
  label gets the reminder, whether or not a key was extracted from its title. The
  program decides the reminder inside \<open>linkPullRequestToIssue\<close>, which \<open>main\<close> calls
  only after a key was extracted: the open pull request "Bug 9001: fix crash", without
  labels, gets the message of the classification and nothing else.
\<close>

theorem hold_reminder_counterexample:
  "State (example_pr ''Bug 9001: fix crash'') = ''open'' \<and>
   \<not> contains (pullRequestLabels (example_pr ''Bug 9001: fix crash'')) ''do-not-merge/hold'' \<and>
   main_pullRequest (example_jira ''Code Review'' []) (example_pr ''Bug 9001: fix crash'') =
     ([Log (V 1) (AwaitingBugfix ''https://github.com/openshift/image-registry/pull/42''
         ''Bug 9001: fix crash'')],
      example_jira ''Code Review'' [], Returned)"
proof -
  have t: "Title (example_pr ''Bug 9001: fix crash'') = ''Bug 9001: fix crash''"
    by (simp add: example_pr_def)
  have k: "keyRegexp_FindStringSubmatch (Title (example_pr ''Bug 9001: fix crash'')) = None"
    by (simp only: t example_no_key)
  have a: "awaiting (example_pr ''Bug 9001: fix crash'') None =
     [Log (V 1) (AwaitingBugfix ''https://github.com/openshift/image-registry/pull/42''
        ''Bug 9001: fix crash'')]"
    by (simp add: awaiting_def t example_bug example_link index_team
          del: bugRegexp_MatchString.simps) (simp add: example_pr_def)
  show ?thesis
    by (simp add: main_pullRequest_None[OF k] a) (simp add: example_pr_def pullRequestLabels_def)
qed

text \<open>
  Claim C4, amended. An open pull request without the label do-not-merge/hold gets the
  reminder, once, when a key was extracted from its title and the issue was fetched,
  whatever the status of the issue and whatever else the title holds. When the fetch of
  the issue fails, and when no key was extracted, no reminder is logged.
\<close>

theorem hold_reminder_needs_key:
  "(keyRegexp_FindStringSubmatch (Title pr) = Some (m, key) \<and>
    Issue_Get jiraClient key = Inr issue \<and> State pr = ''open'' \<and>
    \<not> contains (pullRequestLabels pr) ''do-not-merge/hold'' \<longrightarrow>
      filter isHoldReminder (logged (fst (main_pullRequest jiraClient pr)))
        = [NotOnHold (pullRequestLink pr)]) \<and>
   (keyRegexp_FindStringSubmatch (Title pr) = Some (m, key) \<and>
    Issue_Get jiraClient key = Inl err \<longrightarrow>
      filter isHoldReminder (logged (fst (main_pullRequest jiraClient pr))) = []) \<and>
   (keyRegexp_FindStringSubmatch (Title pr) = None \<longrightarrow>
      filter isHoldReminder (logged (fst (main_pullRequest jiraClient pr))) = [])"
proof (intro conjI impI)
  assume a: "keyRegexp_FindStringSubmatch (Title pr) = Some (m, key) \<and>
    Issue_Get jiraClient key = Inr issue \<and> State pr = ''open'' \<and>
    \<not> contains (pullRequestLabels pr) ''do-not-merge/hold''"
  then have k: "keyRegexp_FindStringSubmatch (Title pr) = Some (m, key)"
    and i: "Issue_Get jiraClient key = Inr issue" by simp_all
  from a show "filter isHoldReminder (logged (fst (main_pullRequest jiraClient pr)))
        = [NotOnHold (pullRequestLink pr)]"
    by (simp add: main_pullRequest_Some[OF k] link_logged_filter[OF i] checkStatus_hold)
next
  assume a: "keyRegexp_FindStringSubmatch (Title pr) = Some (m, key) \<and>
    Issue_Get jiraClient key = Inl err"
  then have k: "keyRegexp_FindStringSubmatch (Title pr) = Some (m, key)" by simp
  from a show "filter isHoldReminder (logged (fst (main_pullRequest jiraClient pr))) = []"
    by (simp add: main_pullRequest_Some[OF k] linkPullRequestToIssue_def)
next
  assume "keyRegexp_FindStringSubmatch (Title pr) = None"
  then show "filter isHoldReminder (logged (fst (main_pullRequest jiraClient pr))) = []"
    by (simp add: main_pullRequest_None)
qed

theorem hold_reminder_needs_key_witness:
  "keyRegexp_FindStringSubmatch (Title (example_pr ''IR-123: Fix registry pruning''))
     = Some (''IR-123: '', ''IR-123'') \<and>
   Issue_Get (example_jira ''Code Review'' []) ''IR-123''
     = Inr \<lparr>Fields_Status_Name = ''Code Review''\<rparr> \<and>
   State (example_pr ''IR-123: Fix registry pruning'') = ''open'' \<and>
   \<not> contains (pullRequestLabels (example_pr ''IR-123: Fix registry pruning''))
        ''do-not-merge/hold'' \<and>
   filter isHoldReminder (logged (fst (main_pullRequest (example_jira ''Code Review'' [])
       (example_pr ''IR-123: Fix registry pruning''))))
     = [NotOnHold ''https://github.com/openshift/image-registry/pull/42''] \<and>
   keyRegexp_FindStringSubmatch (Title (example_pr ''Bug 9001: fix crash'')) = None \<and>
   filter isHoldReminder (logged (fst (main_pullRequest (example_jira ''Code Review'' [])
       (example_pr ''Bug 9001: fix crash'')))) = []"
proof -
  have t: "Title (example_pr title) = title" "State (example_pr title) = ''open''"
    "\<not> contains (pullRequestLabels (example_pr title)) ''do-not-merge/hold''" for title
    by (simp_all add: example_pr_def pullRequestLabels_def)
  show ?thesis
    using hold_reminder_needs_key[of "example_pr ''IR-123: Fix registry pruning''"
        "''IR-123: ''" "''IR-123''" "example_jira ''Code Review'' []"
        "\<lparr>Fields_Status_Name = ''Code Review''\<rparr>"]
      hold_reminder_needs_key[of "example_pr ''Bug 9001: fix crash''" _ _
        "example_jira ''Code Review'' []"]
    by (simp add: t example_key example_no_key example_Issue_Get example_link
          del: FindStringSubmatch.simps)
qed

section \<open>Pull requests without a key\<close>

text \<open>
  Claim C8. When \<open>keyRegexp\<close> finds no key in the title, the processing of the pull
  request leaves the issue tracker as it is and makes no request (no issue is fetched,
  no links are fetched, none is created); it logs at most the one message of the
  classification, and goes on to the next pull request. This holds as well when the
  title matches the bug expression, as for the title "Bug 9001: fix crash" below: the
  bug expression only chooses that message.
\<close>

theorem no_key_no_link:
  assumes "keyRegexp_FindStringSubmatch (Title pr) = None"
  shows "snd (main_pullRequest jiraClient pr) = (jiraClient, Returned) \<and>
         requests (fst (main_pullRequest jiraClient pr)) = [] \<and>
         (\<forall>msg\<in>set (logged (fst (main_pullRequest jiraClient pr))). isAwaiting msg) \<and>
         length (fst (main_pullRequest jiraClient pr)) \<le> 1"
  using awaiting_shape[of pr None] by (simp add: main_pullRequest_None[OF assms])

theorem no_key_no_link_witness:
  "keyRegexp_FindStringSubmatch (Title (example_pr ''Bug 9001: fix crash'')) = None \<and>
   bugRegexp_MatchString (Title (example_pr ''Bug 9001: fix crash'')) \<and>
   snd (main_pullRequest (example_jira ''Code Review'' []) (example_pr ''Bug 9001: fix crash''))
     = (example_jira ''Code Review'' [], Returned) \<and>
   requests (fst (main_pullRequest (example_jira ''Code Review'' [])
     (example_pr ''Bug 9001: fix crash''))) = [] \<and>
   logged (fst (main_pullRequest (example_jira ''Code Review'' [])
     (example_pr ''Bug 9001: fix crash''))) =
     [AwaitingBugfix ''https://github.com/openshift/image-registry/pull/42''
        ''Bug 9001: fix crash'']"
proof -
  have t: "Title (example_pr ''Bug 9001: fix crash'') = ''Bug 9001: fix crash''"
    by (simp add: example_pr_def)
  have k: "keyRegexp_FindStringSubmatch (Title (example_pr ''Bug 9001: fix crash'')) = None"
    by (simp only: t example_no_key)
  have a: "awaiting (example_pr ''Bug 9001: fix crash'') None =
     [Log (V 1) (AwaitingBugfix ''https://github.com/openshift/image-registry/pull/42''
        ''Bug 9001: fix crash'')]"
    by (simp add: awaiting_def t example_bug example_link index_team
          del: bugRegexp_MatchString.simps) (simp add: example_pr_def)
  show ?thesis
    using no_key_no_link[OF k, of "example_jira ''Code Review'' []"] k
    by (simp add: main_pullRequest_None[OF k] a t example_bug del: bugRegexp_MatchString.simps)
qed

section \<open>The two versions of the link reconciler\<close>

text \<open>
  Claim C10. Once the issue is fetched, \<open>linkPullRequestToIssue\<close> of part_000 and of
  main.go leave the same issue tracker behind and end the same way, they make the same
  requests to create a link (the same path and link, hence URL, title and icon), and
  the trace of part_000 without the request for the issue and the messages of the
  switch on the state is the trace of main.go.
\<close>

theorem versions_agree:
  assumes "Issue_Get jiraClient key = Inr issue"
  shows "filter (\<lambda>ev. \<not> isStatusCheck ev) (fst (linkPullRequestToIssue jiraClient pr key))
           = fst (linkPullRequestToIssue_main_go jiraClient pr key) \<and>
         snd (linkPullRequestToIssue jiraClient pr key)
           = snd (linkPullRequestToIssue_main_go jiraClient pr key) \<and>
         filter isPost (requests (fst (linkPullRequestToIssue jiraClient pr key)))
           = filter isPost (requests (fst (linkPullRequestToIssue_main_go jiraClient pr key)))"
  using assms
  by (simp add: linkPullRequestToIssue_def main_go_stripIssueKey Let_def
      split: sum.splits option.splits prod.splits)


theorem versions_agree_witness:
  "Issue_Get (example_jira ''Code Review'' []) ''IR-123''
     = Inr \<lparr>Fields_Status_Name = ''Code Review''\<rparr> \<and>
   linkPullRequestToIssue_main_go (example_jira ''Code Review'' [])
       (example_pr ''IR-123: Fix registry pruning'') ''IR-123'' =
   ([Log (V 3) (Checking ''openshift/image-registry#42'' ''IR-123''),
     Remote (GetRemoteLinks ''IR-123'') None,
     Log (V 1) (Linking ''openshift/image-registry#42'' ''IR-123''),
     Remote (Post ''rest/api/2/issue/IR-123/remotelink''
        \<lparr>Object = \<lparr>URL = ''https://github.com/openshift/image-registry/pull/42'',
                   LinkTitle = ''openshift/image-registry#42: Fix registry pruning'',
                   Icon = Some \<lparr>Url16x16 = ''https://github.com/favicon.ico'',
                                IconTitle = ''GitHub''\<rparr>\<rparr>\<rparr>) None],
    (example_jira ''Code Review'' [])\<lparr>remoteLinks := (\<lambda>k. [])(''IR-123'' :=
       [\<lparr>Object = \<lparr>URL = ''https://github.com/openshift/image-registry/pull/42'',
                   LinkTitle = ''openshift/image-registry#42: Fix registry pruning'',
                   Icon = Some \<lparr>Url16x16 = ''https://github.com/favicon.ico'',
                                IconTitle = ''GitHub''\<rparr>\<rparr>\<rparr>])\<rparr>,
    Returned)"
proof -
  have i: "Issue_Get (example_jira ''Code Review'' []) ''IR-123''
     = Inr \<lparr>Fields_Status_Name = ''Code Review''\<rparr>"
    by (rule example_Issue_Get)
  show ?thesis
    using versions_agree[OF i, of "example_pr ''IR-123: Fix registry pruning''"]
    by (simp add: example_run i prod_eq_iff)
qed

section \<open>The extraction of the key\<close>

text \<open>
  Claim C1, as the specification states it: a key is returned only for a title that
  starts with \<open><prefix>-<digits>: \<close>, the match being anchored at the start of the
  title. The expression of \<open>main\<close> has no anchor: the title "Fix IR-123: foo" does not
  start with \<open>IR-\<close>, and \<open>FindStringSubmatch\<close> returns the key \<open>IR-123\<close> for it;
  \<open>linkPullRequestToIssue\<close> then keeps the whole title, its test \<open>strings.HasPrefix\<close>
  being false.
\<close>

theorem keyRegexp_unanchored_counterexample:
  "\<not> HasPrefix ''Fix IR-123: foo'' ''IR-'' \<and>
   keyRegexp_FindStringSubmatch ''Fix IR-123: foo'' = Some (''IR-123: '', ''IR-123'') \<and>
   stripIssueKey ''Fix IR-123: foo'' ''IR-123'' = ''Fix IR-123: foo''"
  by (simp add: example_key_inside HasPrefix_def stripIssueKey_def del: FindStringSubmatch.simps)

text \<open>
  Claim C1, amended. For every title of the form \<open><prefix>-<digits>: rest\<close> with the
  prefix in \<open>jiraProjects\<close>, the key returned is \<open><prefix>-<digits>\<close> and the residual
  title is \<open>rest\<close>. No key is returned iff the title has this form at none of its
  positions. A key that is returned is the one of the leftmost position where the
  title has this form; the residual title is what follows the marker when that
  position is the start of the title, and the whole title otherwise.
\<close>

theorem keyRegexp_leftmost:
  "(keyedTitle key rest title \<longrightarrow>
      keyRegexp_FindStringSubmatch title = Some (key @ '': '', key) \<and>
      stripIssueKey title key = rest) \<and>
   (keyRegexp_FindStringSubmatch title = None \<longleftrightarrow>
      \<not> (\<exists>pre k r t. title = pre @ t \<and> keyedTitle k r t)) \<and>
   (keyRegexp_FindStringSubmatch title = Some (m, k) \<longrightarrow>
      m = k @ '': '' \<and>
      (\<exists>pre r. title = pre @ k @ '': '' @ r \<and> keyedTitle k r (k @ '': '' @ r) \<and>
         (\<forall>pre' k' r' t'. title = pre' @ t' \<and> keyedTitle k' r' t' \<longrightarrow> length pre \<le> length pre') \<and>
         stripIssueKey title k = (if pre = [] then r else title)))"
proof (intro conjI impI)
  assume a: "keyedTitle key rest title"
  then have "matchKeyHere (keyAlternatives jiraProjects) title = Some key"
    using keyHere_keyedTitle by blast
  then show "keyRegexp_FindStringSubmatch title = Some (key @ '': '', key)"
    unfolding keyRegexp_FindStringSubmatch_def by (rule find_at_start)
  from a show "stripIssueKey title key = rest" by (rule keyedTitle_strip)
next
  have "matchKeyHere (keyAlternatives jiraProjects) t = None \<longleftrightarrow> \<not> (\<exists>k r. keyedTitle k r t)" for t
    using keyHere_keyedTitle[of t] by (metis option.exhaust option.distinct(1))
  then show "keyRegexp_FindStringSubmatch title = None \<longleftrightarrow>
      \<not> (\<exists>pre k r t. title = pre @ t \<and> keyedTitle k r t)"
    unfolding keyRegexp_FindStringSubmatch_def find_None_iff by blast
next
  assume a: "keyRegexp_FindStringSubmatch title = Some (m, k)"
  from find_SomeD[OF a[unfolded keyRegexp_FindStringSubmatch_def]]
  obtain pre t where pt: "title = pre @ t"
      "matchKeyHere (keyAlternatives jiraProjects) t = Some k" "m = k @ '': ''"
    and left: "\<And>pre' t'. title = pre' @ t' \<Longrightarrow> length pre' < length pre
           \<Longrightarrow> matchKeyHere (keyAlternatives jiraProjects) t' = None"
    by blast
  from pt(3) show "m = k @ '': ''" .
  from pt(2) obtain r where kt: "keyedTitle k r t"
    using keyHere_keyedTitle by blast
  then have t: "t = k @ '': '' @ r"
    by (auto simp: keyedTitle_def)
  have lm: "length pre \<le> length pre'" if "title = pre' @ t'" "keyedTitle k' r' t'" for pre' k' r' t'
  proof (rule ccontr)
    assume "\<not> length pre \<le> length pre'"
    with that(1) have "matchKeyHere (keyAlternatives jiraProjects) t' = None"
      by (intro left) auto
    moreover from that(2) have "matchKeyHere (keyAlternatives jiraProjects) t' = Some k'"
      using keyHere_keyedTitle by blast
    ultimately show False by simp
  qed
  have strip: "stripIssueKey title k = (if pre = [] then r else title)"
  proof (cases "pre = []")
    case True
    with pt(1) kt show ?thesis by (simp add: keyedTitle_strip)
  next
    case False
    have "\<not> HasPrefix title (k @ '': '')"
    proof
      assume "HasPrefix title (k @ '': '')"
      from keyedTitle_prefix[OF kt this] obtain r' where "keyedTitle k r' title" ..
      from lm[of "[]" title, OF _ this] False show False by simp
    qed
    with False show ?thesis by (simp add: stripIssueKey_def)
  qed
  show "\<exists>pre r. title = pre @ k @ '': '' @ r \<and> keyedTitle k r (k @ '': '' @ r) \<and>
         (\<forall>pre' k' r' t'. title = pre' @ t' \<and> keyedTitle k' r' t' \<longrightarrow> length pre \<le> length pre') \<and>
         stripIssueKey title k = (if pre = [] then r else title)"
  proof (rule exI[of _ pre], rule exI[of _ r], intro conjI allI impI)
    show "title = pre @ k @ '': '' @ r" using pt(1) t by simp
    show "keyedTitle k r (k @ '': '' @ r)" using kt t by simp
    show "stripIssueKey title k = (if pre = [] then r else title)" by (rule strip)
    show "length pre \<le> length pre'" if "title = pre' @ t' \<and> keyedTitle k' r' t'"
      for pre' k' r' t'
      using that lm by blast
  qed
qed

theorem keyRegexp_leftmost_witness:
  "keyedTitle ''IR-123'' ''Fix registry pruning'' ''IR-123: Fix registry pruning'' \<and>
   keyRegexp_FindStringSubmatch ''IR-123: Fix registry pruning'' = Some (''IR-123: '', ''IR-123'') \<and>
   stripIssueKey ''IR-123: Fix registry pruning'' ''IR-123'' = ''Fix registry pruning'' \<and>
   keyRegexp_FindStringSubmatch ''Bug 9001: fix crash'' = None \<and>
   \<not> keyedTitle ''IR-9001'' ''fix crash'' ''Bug 9001: fix crash''"
proof -
  have n: "keyRegexp_FindStringSubmatch ''Bug 9001: fix crash'' = None"
    by (rule example_no_key)
  have no: "\<not> (\<exists>pre k r t. ''Bug 9001: fix crash'' = pre @ t \<and> keyedTitle k r t)"
    by (rule iffD1[OF keyRegexp_leftmost[THEN conjunct2, THEN conjunct1] n])
  have 1: "\<not> keyedTitle ''IR-9001'' ''fix crash'' ''Bug 9001: fix crash''"
  proof
    assume "keyedTitle ''IR-9001'' ''fix crash'' ''Bug 9001: fix crash''"
    then have "''Bug 9001: fix crash'' = [] @ ''Bug 9001: fix crash'' \<and>
        keyedTitle ''IR-9001'' ''fix crash'' ''Bug 9001: fix crash''"
      by (simp only: append_Nil simp_thms)
    then have "\<exists>pre k r t. ''Bug 9001: fix crash'' = pre @ t \<and> keyedTitle k r t"
      by (intro exI)
    with no show False ..
  qed
  have 2: "keyRegexp_FindStringSubmatch ''IR-123: Fix registry pruning''
             = Some (''IR-123'' @ '': '', ''IR-123'') \<and>
           stripIssueKey ''IR-123: Fix registry pruning'' ''IR-123'' = ''Fix registry pruning''"
    by (rule mp[OF keyRegexp_leftmost[THEN conjunct1] example_keyedTitle])
  from 2 have 3: "keyRegexp_FindStringSubmatch ''IR-123: Fix registry pruning''
             = Some (''IR-123: '', ''IR-123'')"
    by (simp only: append.simps simp_thms)
  from 1 2 3 n example_keyedTitle show ?thesis by (intro conjI) (simp_all only: simp_thms)
qed

section \<open>Linking twice\<close>

text \<open>
  Claim C2. When the links fetched for the issue hold one whose URL is the URL of the
  pull request, \<open>linkPullRequestToIssue\<close> makes no request to create a link and leaves
  the issue tracker as it is. Hence for two calls in sequence with the same issue and
  pull request, the second starting with the links that the first left for the issue:
  when the first call returned, the second makes no request to create a link and
  changes nothing; in every case the two calls together create at most one link, and
  the issue ends with at most one link more than it had.
\<close>

theorem link_idempotent:
  assumes "linkPullRequestToIssue j pr key = (evs, j', out)"
      and "remoteLinks j2 key = remoteLinks j' key"
      and "linkPullRequestToIssue j2 pr key = (evs2, j2', out2)"
  shows "(Issue_GetRemoteLinks j key = Inr links \<and>
          (\<exists>link\<in>set links. URL (Object link) = pullRequestLink pr) \<longrightarrow>
            filter isPost (requests evs) = [] \<and> j' = j) \<and>
         (out = Returned \<longrightarrow> filter isPost (requests evs2) = [] \<and> j2' = j2) \<and>
         length (created (evs @ evs2)) \<le> 1 \<and>
         length (remoteLinks j2' key) \<le> length (remoteLinks j key) + 1"
proof -
  note one = link_once[of j key pr, unfolded assms(1), simplified]
  note two = link_once[of j2 key pr, unfolded assms(3), simplified]
  have j': "remoteLinks j' key = remoteLinks j key @ created evs"
    using one by simp
  have j2': "remoteLinks j2' key = remoteLinks j2 key @ created evs2"
    using two by simp
  have a: "filter isPost (requests evs) = [] \<and> j' = j"
    if "Issue_GetRemoteLinks j key = Inr links"
       "\<exists>link\<in>set links. URL (Object link) = pullRequestLink pr"
  proof -
    from that(1) have "links = remoteLinks j key"
      by (simp add: Issue_GetRemoteLinks_def split: option.splits)
    with that(2) have l: "linked (remoteLinks j key) (pullRequestLink pr)"
      by (simp add: linked_iff)
    with one have "filter isPost (requests evs) = []" by simp
    moreover from this have "created evs = []" by (rule posts_created)
    with one have "j' = j" by simp
    ultimately show ?thesis by simp
  qed
  have b: "filter isPost (requests evs2) = [] \<and> j2' = j2" if "out = Returned"
  proof -
    from that one have "linked (remoteLinks j key @ created evs) (pullRequestLink pr)"
      by simp
    with j' assms(2) have l: "linked (remoteLinks j2 key) (pullRequestLink pr)"
      by simp
    with two have "filter isPost (requests evs2) = []" by simp
    moreover from this have "created evs2 = []" by (rule posts_created)
    with two have "j2' = j2" by simp
    ultimately show ?thesis by simp
  qed
  have c: "length (created evs @ created evs2) \<le> 1"
  proof (cases "created evs = []")
    case True
    with two show ?thesis by simp
  next
    case False
    with one have "out = Returned"
      using assms(1)
      by (auto simp: linkPullRequestToIssue_def Let_def Do_POST_remotelink_def
          split: sum.splits option.splits prod.splits if_splits)
    with b have "created evs2 = []" by (simp add: posts_created)
    with one show ?thesis by simp
  qed
  have d: "length (remoteLinks j2' key) \<le> length (remoteLinks j key) + 1"
    using c j' j2' assms(2) by simp
  from a b c d show ?thesis by simp
qed

theorem link_idempotent_witness:
  "snd (snd (linkPullRequestToIssue (example_jira ''Code Review'' [])
      (example_pr ''IR-123: Fix registry pruning'') ''IR-123'')) = Returned \<and>
   length (created (fst (linkPullRequestToIssue (example_jira ''Code Review'' [])
      (example_pr ''IR-123: Fix registry pruning'') ''IR-123''))) = 1 \<and>
   filter isPost (requests (fst (linkPullRequestToIssue
      (fst (snd (linkPullRequestToIssue (example_jira ''Code Review'' [])
         (example_pr ''IR-123: Fix registry pruning'') ''IR-123'')))
      (example_pr ''IR-123: Fix registry pruning'') ''IR-123''))) = [] \<and>
   fst (snd (linkPullRequestToIssue
      (fst (snd (linkPullRequestToIssue (example_jira ''Code Review'' [])
         (example_pr ''IR-123: Fix registry pruning'') ''IR-123'')))
      (example_pr ''IR-123: Fix registry pruning'') ''IR-123'')) =
   fst (snd (linkPullRequestToIssue (example_jira ''Code Review'' [])
      (example_pr ''IR-123: Fix registry pruning'') ''IR-123''))"
proof -
  let ?J = "example_jira ''Code Review'' []"
  let ?P = "example_pr ''IR-123: Fix registry pruning''"
  let ?first = "linkPullRequestToIssue ?J ?P ''IR-123''"
  let ?second = "linkPullRequestToIssue (fst (snd ?first)) ?P ''IR-123''"
  have 1: "?first = (fst ?first, fst (snd ?first), snd (snd ?first))"
    by simp
  have 2: "?second = (fst ?second, fst (snd ?second), snd (snd ?second))"
    by simp
  have r: "snd (snd ?first) = Returned" "length (created (fst ?first)) = 1"
    by (simp_all add: example_run)
  from link_idempotent[OF 1 refl 2] r(1)
  have "filter isPost (requests (fst ?second)) = [] \<and> fst (snd ?second) = fst (snd ?first)"
    by blast
  with r show ?thesis by blast
qed

section \<open>Errors and mismatches\<close>

text \<open>
  Claim C7. In a run of \<open>main\<close>, a remote request that returns an error (the listing of
  the pull requests, the fetch of an issue or of its links, the creation of a link) is
  the last event of the run, which ends there with \<open>klog.Fatal\<close> of this error: no
  request before the last one failed, the run returns iff no request failed, and it is
  fatal with an error iff its last event is a request that failed with this error. The
  messages about mismatches (status, hold label, title without key) are logged with
  \<open>klog.V(1).Infof\<close> and end no run: a run ends early only at a request that failed.
\<close>

theorem remote_errors_fatal:
  assumes "main githubClient jiraClient = (evs, jiraClient', out)"
  shows "(\<forall>ev\<in>set (butlast evs). failure ev = None) \<and>
         (out = Returned \<longleftrightarrow> (\<forall>ev\<in>set evs. failure ev = None)) \<and>
         (out = Fatal err \<longleftrightarrow> evs \<noteq> [] \<and> failure (last evs) = Some err) \<and>
         (\<forall>l msg. Log l msg \<in> set evs \<longrightarrow>
            isMismatch msg \<or> isHoldReminder msg \<or> isAwaiting msg \<longrightarrow> l = V 1)"
proof -
  from fits_main[of githubClient jiraClient] assms have f: "fits evs out" by simp
  have 4: "\<forall>l msg. Log l msg \<in> set evs \<longrightarrow>
            isMismatch msg \<or> isHoldReminder msg \<or> isAwaiting msg \<longrightarrow> l = V 1"
  proof (intro allI impI)
    fix l msg
    assume "Log l msg \<in> set evs" "isMismatch msg \<or> isHoldReminder msg \<or> isAwaiting msg"
    with advisory_main_repositories[of githubClient jiraClient repositories] assms
    show "l = V 1" by (auto simp: main_def)
  qed
  show ?thesis
  proof (cases out)
    case Returned
    with f have a: "\<forall>ev\<in>set evs. failure ev = None" by simp
    then have "\<forall>ev\<in>set (butlast evs). failure ev = None"
      by (auto dest: in_set_butlastD)
    moreover have "\<not> (evs \<noteq> [] \<and> failure (last evs) = Some err)"
      using a last_in_set[of evs] by auto
    ultimately show ?thesis using Returned a 4 by simp
  next
    case (Fatal e)
    with f have b: "evs \<noteq> []" "\<forall>ev\<in>set (butlast evs). failure ev = None"
      "failure (last evs) = Some e" by simp_all
    then have "\<not> (\<forall>ev\<in>set evs. failure ev = None)"
      using last_in_set[of evs] by auto
    with b Fatal 4 show ?thesis by auto
  qed
qed

theorem remote_errors_fatal_witness:
  "snd (snd (main example_github (example_jira ''In Progress'' [])))
     = Fatal (Error ''rate limit exceeded'') \<and>
   failure (last (fst (main example_github (example_jira ''In Progress'' []))))
     = Some (Error ''rate limit exceeded'') \<and>
   Log (V 1) (GotWant ''IR-123'' ''In Progress'' ''Code Review'')
     \<in> set (butlast (fst (main example_github (example_jira ''In Progress'' [])))) \<and>
   Log (V 1) (NotOnHold ''https://github.com/openshift/image-registry/pull/42'')
     \<in> set (butlast (fst (main example_github (example_jira ''In Progress'' []))))"
proof -
  have o: "snd (snd (main example_github (example_jira ''In Progress'' [])))
     = Fatal (Error ''rate limit exceeded'')"
    by (simp add: example_main)
  have m: "Log (V 1) (GotWant ''IR-123'' ''In Progress'' ''Code Review'')
     \<in> set (butlast (fst (main example_github (example_jira ''In Progress'' []))))"
    "Log (V 1) (NotOnHold ''https://github.com/openshift/image-registry/pull/42'')
     \<in> set (butlast (fst (main example_github (example_jira ''In Progress'' []))))"
    by (simp_all add: example_main)
  have p: "main example_github (example_jira ''In Progress'' []) =
      (fst (main example_github (example_jira ''In Progress'' [])),
       fst (snd (main example_github (example_jira ''In Progress'' []))),
       snd (snd (main example_github (example_jira ''In Progress'' []))))"
    by simp
  from remote_errors_fatal[OF p, of "Error ''rate limit exceeded''"] o
  have "failure (last (fst (main example_github (example_jira ''In Progress'' []))))
     = Some (Error ''rate limit exceeded'')"
    by blast
  with o m show ?thesis by simp
qed

end
